theory Spec2Isabelle
  imports Main "HOL-Library.Char_ord" "HOL-Library.List_Lexorder"
begin

section \<open>Python values, exceptions and printed notices\<close>

text \<open>
  The module \<^verbatim>\<open>covid19_inference/data_retrieval.py\<close> is embedded function by function.
  A \<^verbatim>\<open>datetime.datetime\<close> (or pandas \<^verbatim>\<open>Timestamp\<close>, its subclass) is a point on the
  time line, an integer. Counts are Python integers. An argument that the source
  tests with \<^verbatim>\<open>isinstance\<close> or against \<^verbatim>\<open>None\<close> is a \<open>pyobj\<close>. Every \<^verbatim>\<open>raise\<close> is a
  value \<open>Inl e\<close> of the result; messages of \<^verbatim>\<open>ValueError\<close> are abbreviated.
\<close>

type_synonym datetime = int

datatype pyobj =
    PyNone
  | PyDatetime datetime
  | PyStr string
  | PyInt int
  | PyTuple "string option" "string option"

datatype error =
    ValueError string
  | KeyError
  | IndexError
  | TypeError
  | AttributeError
  | UnboundLocalError
  | Exception string

datatype notice =
    LocalCopyNotice
  | Downloading nat
  | FallbackWarning nat nat
  | Finished

fun isinstance_datetime :: "pyobj \<Rightarrow> bool" where
  "isinstance_datetime (PyDatetime _) = True"
| "isinstance_datetime _ = False"

text \<open>
  The three accessors that take a date range share one test, written
  \<^verbatim>\<open>not isinstance(begin_date, datetime.datetime) and isinstance(end_date, datetime.datetime)\<close>.
  Python's \<^verbatim>\<open>not\<close> binds tighter than \<^verbatim>\<open>and\<close>.
\<close>

definition invalid_dates :: "pyobj \<Rightarrow> pyobj \<Rightarrow> bool" where
  "invalid_dates begin_date end_date =
     ((\<not> isinstance_datetime begin_date) \<and> isinstance_datetime end_date)"

definition and_then :: "error + 'a \<Rightarrow> ('a \<Rightarrow> error + 'b) \<Rightarrow> error + 'b" where
  "and_then r f = (case r of Inl e \<Rightarrow> Inl e | Inr x \<Rightarrow> f x)"

text \<open>\<^verbatim>\<open>xs.iloc[0]\<close>, \<^verbatim>\<open>xs.iloc[-1]\<close>, \<^verbatim>\<open>index[0]\<close>, \<^verbatim>\<open>index[-1]\<close>: IndexError on an empty sequence.\<close>

definition iloc_first :: "'a list \<Rightarrow> error + 'a" where
  "iloc_first xs = (case xs of [] \<Rightarrow> Inl IndexError | x # _ \<Rightarrow> Inr x)"

definition iloc_last :: "'a list \<Rightarrow> error + 'a" where
  "iloc_last xs = (if xs = [] then Inl IndexError else Inr (last xs))"

section \<open>The Robert Koch Institute table\<close>

text \<open>
  One row per case report. \<open>attributes\<close> are the eleven fields a query returns
  (\<^verbatim>\<open>df_keys\<close>); \<^verbatim>\<open>download_all_available_data\<close> adds the columns \<^verbatim>\<open>date\<close> and \<^verbatim>\<open>date_ref\<close>.
  \<^verbatim>\<open>self.data\<close> is declared but not assigned by \<^verbatim>\<open>__init__\<close>: \<open>None\<close> is the unassigned
  attribute, whose read raises AttributeError.
\<close>

record attributes =
  Bundesland :: string
  Landkreis :: string
  Altersgruppe :: string
  Geschlecht :: string
  AnzahlFall :: int
  AnzahlTodesfall :: int
  Meldedatum :: int
  NeuerFall :: int
  NeuGenesen :: int
  AnzahlGenesen :: int
  Refdatum :: int

record rki_row = attributes +
  date :: datetime
  date_ref :: datetime

record rki =
  data :: "rki_row list option"

type_synonym series = "(datetime \<times> int) list"

text \<open>Column lookup by name, \<^verbatim>\<open>df[name]\<close>; a name that is no column raises KeyError.\<close>

definition int_column :: "string \<Rightarrow> (rki_row \<Rightarrow> int) option" where
  "int_column name =
     (if name = ''AnzahlFall'' then Some AnzahlFall
      else if name = ''AnzahlTodesfall'' then Some AnzahlTodesfall
      else if name = ''AnzahlGenesen'' then Some AnzahlGenesen
      else if name = ''Meldedatum'' then Some Meldedatum
      else if name = ''NeuerFall'' then Some NeuerFall
      else if name = ''NeuGenesen'' then Some NeuGenesen
      else if name = ''Refdatum'' then Some Refdatum
      else None)"

definition date_column :: "string \<Rightarrow> (rki_row \<Rightarrow> datetime) option" where
  "date_column name =
     (if name = ''date'' then Some date
      else if name = ''date_ref'' then Some date_ref
      else None)"

definition text_column :: "string \<Rightarrow> (rki_row \<Rightarrow> string) option" where
  "text_column name =
     (if name = ''Bundesland'' then Some Bundesland
      else if name = ''Landkreis'' then Some Landkreis
      else if name = ''Altersgruppe'' then Some Altersgruppe
      else if name = ''Geschlecht'' then Some Geschlecht
      else None)"

text \<open>
  \<^verbatim>\<open>df.groupby(key)[val].sum()\<close>: one entry per distinct key, keys ascending, the
  values of the group added up. \<^verbatim>\<open>.cumsum()\<close>: the running total.
\<close>

definition groupby_sum :: "('r \<Rightarrow> datetime) \<Rightarrow> ('r \<Rightarrow> int) \<Rightarrow> 'r list \<Rightarrow> series" where
  "groupby_sum key val rows =
     map (\<lambda>d. (d, sum_list (map val (filter (\<lambda>r. key r = d) rows))))
       (sort (remdups (map key rows)))"

fun cumsum_from :: "int \<Rightarrow> ('l \<times> int) list \<Rightarrow> ('l \<times> int) list" where
  "cumsum_from acc [] = []"
| "cumsum_from acc ((l, v) # xs) = (l, acc + v) # cumsum_from (acc + v) xs"

definition cumsum :: "('l \<times> int) list \<Rightarrow> ('l \<times> int) list" where
  "cumsum xs = cumsum_from 0 xs"

text \<open>
  \<^verbatim>\<open>s[begin_date:end_date]\<close> on an ascending date index with two datetimes keeps the
  rows whose date lies between them, both ends included. What pandas does with an
  endpoint of another type (a position, a date string, a tuple) is library behaviour
  outside this module; it is the parameter \<open>sl\<close> of every accessor.
\<close>

type_synonym ('l, 'v) slicer = "('l \<times> 'v) list \<Rightarrow> pyobj \<Rightarrow> pyobj \<Rightarrow> error + ('l \<times> 'v) list"

definition between :: "datetime \<Rightarrow> datetime \<Rightarrow> (datetime \<times> 'v) list \<Rightarrow> (datetime \<times> 'v) list" where
  "between b e s = filter (\<lambda>(d, v). b \<le> d \<and> d \<le> e) s"

definition slice_dates :: "(datetime, 'v) slicer \<Rightarrow> (datetime \<times> 'v) list \<Rightarrow> pyobj \<Rightarrow> pyobj \<Rightarrow> error + (datetime \<times> 'v) list" where
  "slice_dates sl s begin_date end_date =
     (case (begin_date, end_date) of
        (PyDatetime b, PyDatetime e) \<Rightarrow> Inr (between b e s)
      | _ \<Rightarrow> sl s begin_date end_date)"

text \<open>\<^verbatim>\<open>x if x is not None else default\<close>, where computing the default may raise.\<close>

definition or_default :: "pyobj \<Rightarrow> error + datetime \<Rightarrow> error + pyobj" where
  "or_default x dflt =
     (if x = PyNone then and_then dflt (\<lambda>d. Inr (PyDatetime d)) else Inr x)"

subsection \<open>\<^verbatim>\<open>RKI.filter\<close>\<close>

text \<open>
  \<^verbatim>\<open>if level is not None: df = df[df[level]==value][[date_type, variable]]\<close>.
  A \<^verbatim>\<open>value\<close> of \<^verbatim>\<open>None\<close> equals no cell, so it selects no row.
\<close>

definition select_level :: "string option \<Rightarrow> string option \<Rightarrow> rki_row list \<Rightarrow> error + rki_row list" where
  "select_level level value rows =
     (case level of
        None \<Rightarrow> Inr rows
      | Some lv \<Rightarrow>
         (case text_column lv of
            None \<Rightarrow> Inl KeyError
          | Some col \<Rightarrow> Inr (filter (\<lambda>r. Some (col r) = value) rows)))"

definition RKI_filter ::
  "(datetime, int) slicer \<Rightarrow> rki \<Rightarrow> pyobj \<Rightarrow> pyobj \<Rightarrow> string \<Rightarrow> string \<Rightarrow> string option \<Rightarrow> string option
     \<Rightarrow> error + series" where
  "RKI_filter sl self begin_date end_date variable date_type level value =
     (if variable \<notin> set [''AnzahlFall'', ''AnzahlTodesfall'', ''AnzahlGenesen''] then
        Inl (ValueError ''Invalid variable'')
      else if level \<notin> set [Some ''Landkreis'', Some ''Bundesland'', None] then
        Inl (ValueError ''Invalid level'')
      else if date_type \<notin> set [''date'', ''date_ref''] then
        Inl (ValueError ''Invalid date_type'')
      else
        (case data self of
           None \<Rightarrow> Inl AttributeError
         | Some rows \<Rightarrow>
            (case (date_column date_type, int_column variable) of
               (Some key, Some val) \<Rightarrow>
                 and_then (or_default begin_date (iloc_first (map key (sort_key key rows))))
                   (\<lambda>begin_date.
                 and_then (or_default end_date (iloc_last (map key (sort_key key rows))))
                   (\<lambda>end_date.
                    if invalid_dates begin_date end_date then
                      Inl (ValueError ''Invalid begin_date, end_date'')
                    else
                      and_then (select_level level value rows)
                        (\<lambda>df. slice_dates sl (cumsum (groupby_sum key val df))
                                 begin_date end_date)))
             | _ \<Rightarrow> Inl KeyError)))"

subsection \<open>\<^verbatim>\<open>RKI.get_confirmed\<close>, \<^verbatim>\<open>get_deaths\<close>, \<^verbatim>\<open>get_recovered\<close>\<close>

text \<open>
  Each of the three sets \<^verbatim>\<open>level\<close> and \<^verbatim>\<open>value\<close> from \<^verbatim>\<open>bundesland\<close> and \<^verbatim>\<open>landkreis\<close> with
  the same two \<^verbatim>\<open>if\<close> statements, the second overriding the first, and calls
  \<^verbatim>\<open>self.filter\<close> with its own column name.
\<close>

definition level_value :: "string option \<Rightarrow> string option \<Rightarrow> string option \<times> string option" where
  "level_value bundesland landkreis =
     (let lv = (None, None);
          lv = (if bundesland \<noteq> None then (Some ''Bundesland'', bundesland) else lv);
          lv = (if landkreis \<noteq> None then (Some ''Landkreis'', landkreis) else lv)
      in lv)"

definition RKI_get_confirmed ::
  "(datetime, int) slicer \<Rightarrow> rki \<Rightarrow> string option \<Rightarrow> string option \<Rightarrow> pyobj \<Rightarrow> pyobj \<Rightarrow> string
     \<Rightarrow> error + series" where
  "RKI_get_confirmed sl self bundesland landkreis begin_date end_date date_type =
     (case level_value bundesland landkreis of
        (level, value) \<Rightarrow>
          RKI_filter sl self begin_date end_date ''AnzahlFall'' date_type level value)"

definition RKI_get_deaths ::
  "(datetime, int) slicer \<Rightarrow> rki \<Rightarrow> string option \<Rightarrow> string option \<Rightarrow> pyobj \<Rightarrow> pyobj \<Rightarrow> string
     \<Rightarrow> error + series" where
  "RKI_get_deaths sl self bundesland landkreis begin_date end_date date_type =
     (case level_value bundesland landkreis of
        (level, value) \<Rightarrow>
          RKI_filter sl self begin_date end_date ''AnzahlTodesfall'' date_type level value)"

definition RKI_get_recovered ::
  "(datetime, int) slicer \<Rightarrow> rki \<Rightarrow> string option \<Rightarrow> string option \<Rightarrow> pyobj \<Rightarrow> pyobj \<Rightarrow> string
     \<Rightarrow> error + series" where
  "RKI_get_recovered sl self bundesland landkreis begin_date end_date date_type =
     (case level_value bundesland landkreis of
        (level, value) \<Rightarrow>
          RKI_filter sl self begin_date end_date ''AnzahlGenesen'' date_type level value)"

subsection \<open>The daily series: \<^verbatim>\<open>df.diff().drop(df.index[0]).astype(int)\<close>\<close>

text \<open>
  Every \<^verbatim>\<open>get_new_*\<close> method, of either class, ends in this line. \<^verbatim>\<open>diff\<close> puts NaN
  (\<open>None\<close>) in the first row and the difference to the row before in every other;
  \<^verbatim>\<open>df.index[0]\<close> raises IndexError on a frame with no row; \<^verbatim>\<open>drop\<close> removes every row
  that carries the given label; \<^verbatim>\<open>astype(int)\<close> raises on a NaN that is left.
\<close>

fun diff_from :: "int \<Rightarrow> ('l \<times> int) list \<Rightarrow> ('l \<times> int option) list" where
  "diff_from prev [] = []"
| "diff_from prev ((l, v) # xs) = (l, Some (v - prev)) # diff_from v xs"

fun diff :: "('l \<times> int) list \<Rightarrow> ('l \<times> int option) list" where
  "diff [] = []"
| "diff ((l, v) # xs) = (l, None) # diff_from v xs"

definition drop_label :: "'l \<Rightarrow> ('l \<times> 'v) list \<Rightarrow> ('l \<times> 'v) list" where
  "drop_label l df = filter (\<lambda>(k, v). k \<noteq> l) df"

fun astype_int :: "('l \<times> int option) list \<Rightarrow> error + ('l \<times> int) list" where
  "astype_int [] = Inr []"
| "astype_int ((l, None) # xs) = Inl (ValueError ''Cannot convert NaN to integer'')"
| "astype_int ((l, Some v) # xs) = and_then (astype_int xs) (\<lambda>ys. Inr ((l, v) # ys))"

definition diff_drop_astype :: "('l \<times> int) list \<Rightarrow> error + ('l \<times> int) list" where
  "diff_drop_astype df =
     and_then (iloc_first (map fst df)) (\<lambda>first. astype_int (drop_label first (diff df)))"

text \<open>
  The daily series as the specification words it: the difference between each row
  and the row before it, the first row left out.
\<close>

fun first_difference :: "('l \<times> int) list \<Rightarrow> ('l \<times> int) list" where
  "first_difference [] = []"
| "first_difference [x] = []"
| "first_difference ((l, v) # (l', v') # xs) = (l', v' - v) # first_difference ((l', v') # xs)"

definition RKI_get_new_confirmed ::
  "(datetime, int) slicer \<Rightarrow> rki \<Rightarrow> string option \<Rightarrow> string option \<Rightarrow> pyobj \<Rightarrow> pyobj \<Rightarrow> string
     \<Rightarrow> error + series" where
  "RKI_get_new_confirmed sl self bundesland landkreis begin_date end_date date_type =
     and_then (RKI_get_confirmed sl self bundesland landkreis begin_date end_date date_type)
       diff_drop_astype"

definition RKI_get_new_deaths ::
  "(datetime, int) slicer \<Rightarrow> rki \<Rightarrow> string option \<Rightarrow> string option \<Rightarrow> pyobj \<Rightarrow> pyobj \<Rightarrow> string
     \<Rightarrow> error + series" where
  "RKI_get_new_deaths sl self bundesland landkreis begin_date end_date date_type =
     and_then (RKI_get_deaths sl self bundesland landkreis begin_date end_date date_type)
       diff_drop_astype"

definition RKI_get_new_recovered ::
  "(datetime, int) slicer \<Rightarrow> rki \<Rightarrow> string option \<Rightarrow> string option \<Rightarrow> pyobj \<Rightarrow> pyobj \<Rightarrow> string
     \<Rightarrow> error + series" where
  "RKI_get_new_recovered sl self bundesland landkreis begin_date end_date date_type =
     and_then (RKI_get_recovered sl self bundesland landkreis begin_date end_date date_type)
       diff_drop_astype"

subsection \<open>\<^verbatim>\<open>RKI.filter_all_bundesland\<close>\<close>

text \<open>
  The pivot has one row per date and one column per Bundesland, both ascending; a
  cell is the sum of the variable over the rows of that date and Bundesland, zero
  where there is none (\<^verbatim>\<open>fillna(0)\<close>). The rows are sliced first and accumulated after.
  The default endpoints are read from \<^verbatim>\<open>self.data\<close> as it is stored, not sorted.
\<close>

definition pivot_sum ::
  "(rki_row \<Rightarrow> datetime) \<Rightarrow> (rki_row \<Rightarrow> int) \<Rightarrow> rki_row list \<Rightarrow> string list \<times> (datetime \<times> int list) list" where
  "pivot_sum key val rows =
     (let cols = sort (remdups (map Bundesland rows)) in
      (cols,
       map (\<lambda>d. (d, map (\<lambda>c. sum_list (map val (filter (\<lambda>r. key r = d \<and> Bundesland r = c) rows))) cols))
         (sort (remdups (map key rows)))))"

fun cumsum_rows_from :: "int list \<Rightarrow> ('l \<times> int list) list \<Rightarrow> ('l \<times> int list) list" where
  "cumsum_rows_from acc [] = []"
| "cumsum_rows_from acc ((l, vs) # xs) =
     (l, map2 (+) acc vs) # cumsum_rows_from (map2 (+) acc vs) xs"

definition RKI_filter_all_bundesland ::
  "(datetime, int list) slicer \<Rightarrow> rki \<Rightarrow> pyobj \<Rightarrow> pyobj \<Rightarrow> string \<Rightarrow> string
     \<Rightarrow> error + string list \<times> (datetime \<times> int list) list" where
  "RKI_filter_all_bundesland sl self begin_date end_date variable date_type =
     (if variable \<notin> set [''AnzahlFall'', ''AnzahlTodesfall'', ''AnzahlGenesen''] then
        Inl (ValueError ''Invalid variable'')
      else if date_type \<notin> set [''date'', ''date_ref''] then
        Inl (ValueError ''Invalid date_type'')
      else
        (case data self of
           None \<Rightarrow> Inl AttributeError
         | Some rows \<Rightarrow>
            (case (date_column date_type, int_column variable) of
               (Some key, Some val) \<Rightarrow>
                 and_then (or_default begin_date (iloc_first (map key rows)))
                   (\<lambda>begin_date.
                 and_then (or_default end_date (iloc_last (map key rows)))
                   (\<lambda>end_date.
                    if invalid_dates begin_date end_date then
                      Inl (ValueError ''Invalid begin_date, end_date'')
                    else
                      (case pivot_sum key val rows of
                         (cols, df2) \<Rightarrow>
                           and_then (slice_dates sl df2 begin_date end_date)
                             (\<lambda>sliced.
                                Inr (cols, cumsum_rows_from (replicate (length cols) 0) sliced)))))
             | _ \<Rightarrow> Inl KeyError)))"

subsection \<open>\<^verbatim>\<open>RKI.download_all_available_data\<close>\<close>

text \<open>
  What the network and the file system answer is the environment of a call:
  \<^item> \<open>discovery\<close>: the \<^verbatim>\<open>IdLandkreis\<close> values of the index query, or the exception that
    opening or decoding it raises (this query is outside every \<^verbatim>\<open>try\<close>);
  \<^item> \<open>query n i\<close>: the answer to the \<open>n\<close>-th per-region query of the call, asked for
    Landkreis \<open>i\<close>: the list of \<^verbatim>\<open>attributes\<close> of its features, or an exception;
  \<^item> \<open>fallback_file\<close>: the rows of \<^verbatim>\<open>data/rki_fallback_gzip.dat\<close>, whose \<^verbatim>\<open>date\<close> column is
    text, or the exception of \<^verbatim>\<open>read_csv\<close>;
  \<^item> \<open>to_datetime\<close>: \<^verbatim>\<open>pd.to_datetime\<close> of one text cell with the format \<^verbatim>\<open>%d-%m-%Y\<close>;
  \<^item> \<open>fromtimestamp\<close>: \<^verbatim>\<open>datetime.datetime.fromtimestamp(x/1e3)\<close>.
  A call returns a table or raises, leaves an adapter state, prints notices and has
  asked the per-region queries listed in \<open>queried\<close>, in order.
\<close>

record fallback_row = attributes +
  date_text :: string

record rki_env =
  discovery :: "error + string list"
  query :: "nat \<Rightarrow> string \<Rightarrow> error + attributes list"
  fallback_file :: "error + fallback_row list"
  to_datetime :: "string \<Rightarrow> error + datetime"
  fromtimestamp :: "int \<Rightarrow> datetime"

record rki_run =
  returned :: "error + rki_row list"
  adapter :: rki
  printed :: "notice list"
  queried :: "string list"

definition landkreise_max :: nat where
  "landkreise_max = 412"

text \<open>
  The \<^verbatim>\<open>while count_try < try_max\<close> loop of one Landkreis. The bare \<^verbatim>\<open>except\<close> catches the
  exception of the request and the \<^verbatim>\<open>ValueError('Query limit exceeded')\<close> raised for more
  than 5000 features alike. \<open>data_flat\<close> is the local variable of that name: \<open>None\<close>
  while it is unbound, and unchanged when no attempt succeeds.
\<close>

function try_query ::
  "rki_env \<Rightarrow> int \<Rightarrow> string \<Rightarrow> int \<Rightarrow> attributes list option \<Rightarrow> string list
     \<Rightarrow> attributes list option \<times> int \<times> string list" where
  "try_query env try_max idlandkreis count_try data_flat log =
     (if count_try < try_max then
        (case query env (length log) idlandkreis of
           Inl e \<Rightarrow>
             try_query env try_max idlandkreis (count_try + 1) data_flat (log @ [idlandkreis])
         | Inr features \<Rightarrow>
             if length features > 5000 then
               try_query env try_max idlandkreis (count_try + 1) data_flat (log @ [idlandkreis])
             else (Some features, count_try, log @ [idlandkreis]))
      else (data_flat, count_try, log))"
  by pat_completeness auto
termination
  by (relation "measure (\<lambda>(env, try_max, idlandkreis, count_try, data_flat, log).
                  nat (try_max - count_try))") auto

text \<open>
  An attempt fails when the request raises or reports more than 5000 features: the
  two ways into the \<^verbatim>\<open>except\<close> branch.
\<close>

definition attempt_fails :: "error + attributes list \<Rightarrow> bool" where
  "attempt_fails answer = (case answer of Inl e \<Rightarrow> True | Inr features \<Rightarrow> length features > 5000)"

text \<open>The \<^verbatim>\<open>for idlandkreis in unique_ids\<close> loop; \<open>df\<close> is the table concatenated so far.\<close>

fun fetch_landkreise ::
  "rki_env \<Rightarrow> int \<Rightarrow> string list \<Rightarrow> attributes list \<Rightarrow> attributes list option \<Rightarrow> string list
     \<Rightarrow> (error + attributes list) \<times> string list" where
  "fetch_landkreise env try_max [] df data_flat log = (Inr df, log)"
| "fetch_landkreise env try_max (idlandkreis # unique_ids) df data_flat log =
     (case try_query env try_max idlandkreis 0 data_flat log of
        (data_flat', count_try, log') \<Rightarrow>
          if count_try = try_max then
            (Inl (ValueError ''Maximum limit of tries exceeded.''), log')
          else
            (case data_flat' of
               None \<Rightarrow> (Inl UnboundLocalError, log')
             | Some df_temp \<Rightarrow>
                 fetch_landkreise env try_max unique_ids (df @ df_temp) data_flat' log'))"

definition with_dates :: "(int \<Rightarrow> datetime) \<Rightarrow> attributes \<Rightarrow> rki_row" where
  "with_dates conv a =
     attributes.extend a
       (rki_row.fields (conv (Meldedatum a)) (conv (Refdatum a)))"

text \<open>
  The fallback branch converts the text column \<^verbatim>\<open>date\<close> and then computes \<^verbatim>\<open>date_ref\<close> from
  \<^verbatim>\<open>df['date']\<close> again, which by then holds datetimes: \<^verbatim>\<open>to_datetime\<close> of a datetime is
  that datetime.
\<close>

fun fallback_dates :: "(string \<Rightarrow> error + datetime) \<Rightarrow> fallback_row list \<Rightarrow> error + rki_row list" where
  "fallback_dates conv [] = Inr []"
| "fallback_dates conv (r # rs) =
     and_then (conv (date_text r)) (\<lambda>d.
     and_then (fallback_dates conv rs) (\<lambda>rest.
       Inr (attributes.extend (attributes.truncate r) (rki_row.fields d d) # rest)))"

definition RKI_download_all_available_data :: "rki_env \<Rightarrow> rki \<Rightarrow> int \<Rightarrow> rki_run" where
  "RKI_download_all_available_data env self try_max =
     (case discovery env of
        Inl e \<Rightarrow> \<lparr>returned = Inl e, adapter = self, printed = [], queried = []\<rparr>
      | Inr unique_ids \<Rightarrow>
          (let n_data = length unique_ids in
           if n_data \<ge> landkreise_max then
             (case fetch_landkreise env try_max unique_ids [] None [] of
                (Inl e, log) \<Rightarrow>
                  \<lparr>returned = Inl e, adapter = self, printed = [Downloading n_data],
                   queried = log\<rparr>
              | (Inr df, log) \<Rightarrow>
                  (let df = map (with_dates (fromtimestamp env)) df in
                   \<lparr>returned = Inr df, adapter = self\<lparr>data := Some df\<rparr>,
                    printed = [Downloading n_data, Finished], queried = log\<rparr>))
           else
             (case and_then (fallback_file env) (fallback_dates (to_datetime env)) of
                Inl e \<Rightarrow>
                  \<lparr>returned = Inl e, adapter = self,
                   printed = [FallbackWarning n_data landkreise_max], queried = []\<rparr>
              | Inr df \<Rightarrow>
                  \<lparr>returned = Inr df, adapter = self\<lparr>data := Some df\<rparr>,
                   printed = [FallbackWarning n_data landkreise_max, Finished],
                   queried = []\<rparr>)))"

section \<open>The Johns Hopkins University tables\<close>

text \<open>
  A table as \<^verbatim>\<open>__to_iso\<close> leaves it: one column per region, keyed by
  (country, state), and one row per date. A missing province (NaN in the file) is
  \<open>None\<close>. A frame, like every pandas frame, is rectangular: each row has one cell
  per column. The three attributes are declared but not assigned by \<^verbatim>\<open>__init__\<close>.
\<close>

type_synonym region = "string option \<times> string option"

record jhu_table =
  columns :: "region list"
  table_rows :: "(datetime \<times> int list) list"

record jhu =
  confirmed :: "jhu_table option"
  deaths :: "jhu_table option"
  recovered :: "jhu_table option"

text \<open>
  The frame an accessor builds has one column of values. Its index holds dates,
  or, where a sum ran down the rows instead of across them, region keys.
\<close>

datatype label = DateL datetime | RegionL region

type_synonym frame = "(label \<times> int) list"

fun pyobj_of_label :: "label \<Rightarrow> pyobj" where
  "pyobj_of_label (DateL d) = PyDatetime d"
| "pyobj_of_label (RegionL (c, s)) = PyTuple c s"

fun date_of_label :: "label \<Rightarrow> datetime option" where
  "date_of_label (DateL d) = Some d"
| "date_of_label (RegionL r) = None"

text \<open>\<^verbatim>\<open>table.sum(axis = 1, skipna = True)\<close>: the cells of each row added up.\<close>

definition sum_axis1 :: "(datetime \<times> int list) list \<Rightarrow> frame" where
  "sum_axis1 trs = map (\<lambda>(d, vs). (DateL d, sum_list vs)) trs"

text \<open>\<^verbatim>\<open>table.sum()\<close>, that is \<^verbatim>\<open>axis = 0\<close>: the cells of each column added up.\<close>

definition sum_axis0 :: "jhu_table \<Rightarrow> frame" where
  "sum_axis0 t =
     zip (map RegionL (columns t))
       (foldl (map2 (+)) (replicate (length (columns t)) 0) (map snd (table_rows t)))"

text \<open>
  \<^verbatim>\<open>table[country]\<close> keeps the columns of that country and raises KeyError when there
  is none; \<^verbatim>\<open>table[(country, state)]\<close> is the one column of that key, KeyError when
  there is none; several columns under one key cannot be assigned to one column.
\<close>

definition cells_where :: "(region \<Rightarrow> bool) \<Rightarrow> jhu_table \<Rightarrow> (datetime \<times> int list) list" where
  "cells_where P t =
     map (\<lambda>(d, vs). (d, map snd (filter (\<lambda>(k, v). P k) (zip (columns t) vs)))) (table_rows t)"

definition select_country :: "string \<Rightarrow> jhu_table \<Rightarrow> error + (datetime \<times> int list) list" where
  "select_country country t =
     (if Some country \<notin> fst ` set (columns t) then Inl KeyError
      else Inr (cells_where (\<lambda>k. fst k = Some country) t))"

definition select_column :: "string \<Rightarrow> string \<Rightarrow> jhu_table \<Rightarrow> error + frame" where
  "select_column country state t =
     (if (Some country, Some state) \<notin> set (columns t) then Inl KeyError
      else if length (filter (\<lambda>k. k = (Some country, Some state)) (columns t)) > 1 then
        Inl (ValueError ''Cannot set a frame with multiple columns to one column'')
      else Inr (sum_axis1 (cells_where (\<lambda>k. k = (Some country, Some state)) t)))"

subsection \<open>\<^verbatim>\<open>JHU.filter_date\<close>\<close>

text \<open>
  A slice by two datetimes of an ascending date index keeps the rows between them,
  both ends included; every other slice is the library's, the parameter \<open>sl\<close>.
\<close>

definition label_or_default :: "pyobj \<Rightarrow> error + label \<Rightarrow> error + pyobj" where
  "label_or_default x dflt =
     (if x = PyNone then and_then dflt (\<lambda>l. Inr (pyobj_of_label l)) else Inr x)"

definition slice_labels :: "(label, int) slicer \<Rightarrow> frame \<Rightarrow> pyobj \<Rightarrow> pyobj \<Rightarrow> error + frame" where
  "slice_labels sl df begin_date end_date =
     (case (begin_date, end_date, those (map (\<lambda>(l, v). date_of_label l) df)) of
        (PyDatetime b, PyDatetime e, Some ds) \<Rightarrow>
          if sorted ds then
            Inr (filter (\<lambda>(l, v). case l of DateL d \<Rightarrow> b \<le> d \<and> d \<le> e | RegionL r \<Rightarrow> False) df)
          else sl df begin_date end_date
      | _ \<Rightarrow> sl df begin_date end_date)"

definition JHU_filter_date :: "(label, int) slicer \<Rightarrow> frame \<Rightarrow> pyobj \<Rightarrow> pyobj \<Rightarrow> error + frame" where
  "JHU_filter_date sl df begin_date end_date =
     and_then (label_or_default begin_date (iloc_first (map fst df)))
       (\<lambda>begin_date.
     and_then (label_or_default end_date (iloc_last (map fst df)))
       (\<lambda>end_date.
        if invalid_dates begin_date end_date then
          Inl (ValueError ''Invalid begin_date, end_date'')
        else slice_labels sl df begin_date end_date))"

subsection \<open>\<^verbatim>\<open>JHU.get_confirmed\<close>, \<^verbatim>\<open>get_deaths\<close>, \<^verbatim>\<open>get_recovered\<close>\<close>

text \<open>\<^verbatim>\<open>if country == "None": country = None\<close>, and the same for \<^verbatim>\<open>state\<close>.\<close>

definition none_string :: "string option \<Rightarrow> string option" where
  "none_string x = (if x = Some ''None'' then None else x)"

text \<open>
  \<^verbatim>\<open>get_confirmed\<close> and \<^verbatim>\<open>get_deaths\<close> fill their column alike, from their own table:
  the sum across all columns, across the columns of a country, or one column.
\<close>

definition across_regions :: "jhu_table \<Rightarrow> string option \<Rightarrow> string option \<Rightarrow> error + frame" where
  "across_regions t country state =
     (case country of
        None \<Rightarrow> Inr (sum_axis1 (table_rows t))
      | Some c \<Rightarrow>
         (case state of
            None \<Rightarrow> and_then (select_country c t) (\<lambda>trs. Inr (sum_axis1 trs))
          | Some s \<Rightarrow> select_column c s t))"

definition JHU_get_confirmed ::
  "(label, int) slicer \<Rightarrow> jhu \<Rightarrow> string option \<Rightarrow> string option \<Rightarrow> pyobj \<Rightarrow> pyobj \<Rightarrow> error + frame" where
  "JHU_get_confirmed sl self country state begin_date end_date =
     (let country = none_string country; state = none_string state in
      case confirmed self of
        None \<Rightarrow> Inl AttributeError
      | Some t \<Rightarrow>
          and_then (across_regions t country state)
            (\<lambda>df. JHU_filter_date sl df begin_date end_date))"

definition JHU_get_deaths ::
  "(label, int) slicer \<Rightarrow> jhu \<Rightarrow> string option \<Rightarrow> string option \<Rightarrow> pyobj \<Rightarrow> pyobj \<Rightarrow> error + frame" where
  "JHU_get_deaths sl self country state begin_date end_date =
     (let country = none_string country; state = none_string state in
      case deaths self of
        None \<Rightarrow> Inl AttributeError
      | Some t \<Rightarrow>
          and_then (across_regions t country state)
            (\<lambda>df. JHU_filter_date sl df begin_date end_date))"

text \<open>
  \<^verbatim>\<open>get_recovered\<close> is written differently: \<^verbatim>\<open>self.recovered.sum()\<close> without an axis, and
  \<^verbatim>\<open>self.recovered.loc[country]\<close>, \<^verbatim>\<open>self.recovered.loc[(country,state)]\<close>, which look the
  region names up among the row labels, the dates. What pandas answers to such a
  lookup (and to the \<^verbatim>\<open>.sum()\<close> after the first) is the parameter \<open>loc\<close>.
\<close>

definition JHU_get_recovered ::
  "(label, int) slicer \<Rightarrow> (jhu_table \<Rightarrow> pyobj \<Rightarrow> error + frame) \<Rightarrow> jhu \<Rightarrow> string option \<Rightarrow> string option
     \<Rightarrow> pyobj \<Rightarrow> pyobj \<Rightarrow> error + frame" where
  "JHU_get_recovered sl loc self country state begin_date end_date =
     (let country = none_string country; state = none_string state in
      case recovered self of
        None \<Rightarrow> Inl AttributeError
      | Some t \<Rightarrow>
          and_then
            (case country of
               None \<Rightarrow> Inr (sum_axis0 t)
             | Some c \<Rightarrow>
                (case state of
                   None \<Rightarrow> loc t (PyStr c)
                 | Some s \<Rightarrow> loc t (PyTuple (Some c) (Some s))))
            (\<lambda>df. JHU_filter_date sl df begin_date end_date))"

definition JHU_get_new_confirmed ::
  "(label, int) slicer \<Rightarrow> jhu \<Rightarrow> string option \<Rightarrow> string option \<Rightarrow> pyobj \<Rightarrow> pyobj \<Rightarrow> error + frame" where
  "JHU_get_new_confirmed sl self country state begin_date end_date =
     and_then (JHU_get_confirmed sl self country state begin_date end_date) diff_drop_astype"

definition JHU_get_new_deaths ::
  "(label, int) slicer \<Rightarrow> jhu \<Rightarrow> string option \<Rightarrow> string option \<Rightarrow> pyobj \<Rightarrow> pyobj \<Rightarrow> error + frame" where
  "JHU_get_new_deaths sl self country state begin_date end_date =
     and_then (JHU_get_deaths sl self country state begin_date end_date) diff_drop_astype"

definition JHU_get_new_recovered ::
  "(label, int) slicer \<Rightarrow> (jhu_table \<Rightarrow> pyobj \<Rightarrow> error + frame) \<Rightarrow> jhu \<Rightarrow> string option \<Rightarrow> string option
     \<Rightarrow> pyobj \<Rightarrow> pyobj \<Rightarrow> error + frame" where
  "JHU_get_new_recovered sl loc self country state begin_date end_date =
     and_then (JHU_get_recovered sl loc self country state begin_date end_date) diff_drop_astype"

subsection \<open>The JHU downloads\<close>

text \<open>
  The file \<^verbatim>\<open>read_csv\<close> returns: the two region columns, when the file has them, and
  every other column with its header, in the order of the file (\<^verbatim>\<open>Lat\<close>, \<^verbatim>\<open>Long\<close> and
  one column of counts per date). The environment of a download is what \<^verbatim>\<open>read_csv\<close>
  answers for a path or URL, the directory of the module, and \<^verbatim>\<open>strptime\<close> with the
  format \<^verbatim>\<open>%m/%d/%y\<close>.
\<close>

record raw_csv =
  province_state :: "string option list option"
  country_region :: "string option list option"
  other_columns :: "(string \<times> int list) list"

record jhu_env =
  read_csv :: "string \<Rightarrow> error + raw_csv"
  this_dir :: string
  strptime :: "string \<Rightarrow> error + datetime"

text \<open>
  \<^verbatim>\<open>__download_from_source(url, fallback = None)\<close>. In the handler the path of the local
  copy is \<^verbatim>\<open>this_dir + "/../data/" + fallback\<close>; adding \<^verbatim>\<open>None\<close> to a string raises
  TypeError.
\<close>

definition download_from_source ::
  "jhu_env \<Rightarrow> string \<Rightarrow> string option \<Rightarrow> (error + raw_csv) \<times> notice list" where
  "download_from_source env url fallback =
     (case read_csv env url of
        Inr d \<Rightarrow> (Inr d, [])
      | Inl e \<Rightarrow>
         (case fallback of
            None \<Rightarrow> (Inl TypeError, [LocalCopyNotice])
          | Some name \<Rightarrow>
              (read_csv env (this_dir env @ ''/../data/'' @ name), [LocalCopyNotice])))"

fun parse_headers :: "(string \<Rightarrow> error + datetime) \<Rightarrow> string list \<Rightarrow> error + datetime list" where
  "parse_headers conv [] = Inr []"
| "parse_headers conv (h # hs) =
     and_then (conv h) (\<lambda>d. and_then (parse_headers conv hs) (\<lambda>ds. Inr (d # ds)))"

text \<open>
  \<^verbatim>\<open>__to_iso\<close>: drop \<^verbatim>\<open>Lat\<close> and \<^verbatim>\<open>Long\<close> (KeyError when one is missing), rename and index by
  the two region columns (KeyError when one is missing), parse every remaining header
  as a date, transpose.
\<close>

definition to_iso :: "jhu_env \<Rightarrow> raw_csv \<Rightarrow> error + jhu_table" where
  "to_iso env df =
     (if ''Lat'' \<notin> fst ` set (other_columns df) \<or> ''Long'' \<notin> fst ` set (other_columns df) then
        Inl KeyError
      else
        (case (country_region df, province_state df) of
           (Some countries, Some states) \<Rightarrow>
             (let dated = filter (\<lambda>(h, vs). h \<noteq> ''Lat'' \<and> h \<noteq> ''Long'') (other_columns df) in
              and_then (parse_headers (strptime env) (map fst dated))
                (\<lambda>ds. Inr \<lparr>columns = zip countries states,
                            table_rows = zip ds (map snd dated)\<rparr>))
         | _ \<Rightarrow> Inl KeyError))"

text \<open>
  \<^verbatim>\<open>download_confirmed\<close>, \<^verbatim>\<open>download_deaths\<close> and \<^verbatim>\<open>download_recovered\<close> call
  \<^verbatim>\<open>__download_from_source\<close> with the URL alone. A download returns a table or raises,
  leaves an adapter state and prints notices.
\<close>

definition download_table :: "jhu_env \<Rightarrow> string \<Rightarrow> (error + jhu_table) \<times> notice list" where
  "download_table env fp =
     (case download_from_source env fp None of
        (Inl e, out) \<Rightarrow> (Inl e, out)
      | (Inr raw, out) \<Rightarrow> (to_iso env raw, out))"

definition JHU_download_confirmed ::
  "jhu_env \<Rightarrow> jhu \<Rightarrow> string \<Rightarrow> bool \<Rightarrow> (error + jhu_table) \<times> jhu \<times> notice list" where
  "JHU_download_confirmed env self fp_confirmed save_to_attribues =
     (case download_table env fp_confirmed of
        (Inl e, out) \<Rightarrow> (Inl e, self, out)
      | (Inr t, out) \<Rightarrow>
          (Inr t, if save_to_attribues then self\<lparr>confirmed := Some t\<rparr> else self, out))"

definition JHU_download_deaths ::
  "jhu_env \<Rightarrow> jhu \<Rightarrow> string \<Rightarrow> bool \<Rightarrow> (error + jhu_table) \<times> jhu \<times> notice list" where
  "JHU_download_deaths env self fp_deaths save_to_attribues =
     (case download_table env fp_deaths of
        (Inl e, out) \<Rightarrow> (Inl e, self, out)
      | (Inr t, out) \<Rightarrow>
          (Inr t, if save_to_attribues then self\<lparr>deaths := Some t\<rparr> else self, out))"

definition JHU_download_recovered ::
  "jhu_env \<Rightarrow> jhu \<Rightarrow> string \<Rightarrow> bool \<Rightarrow> (error + jhu_table) \<times> jhu \<times> notice list" where
  "JHU_download_recovered env self fp_recovered save_to_attribues =
     (case download_table env fp_recovered of
        (Inl e, out) \<Rightarrow> (Inl e, self, out)
      | (Inr t, out) \<Rightarrow>
          (Inr t, if save_to_attribues then self\<lparr>recovered := Some t\<rparr> else self, out))"

section \<open>Example data\<close>

text \<open>
  Concrete inputs for the closed statements below: a library that refuses every
  slice and lookup left to it, case reports, and small tables.
\<close>

definition no_other_slice :: "('l, 'v) slicer" where
  "no_other_slice df begin_date end_date = Inl TypeError"

definition no_loc :: "jhu_table \<Rightarrow> pyobj \<Rightarrow> error + frame" where
  "no_loc t k = Inl KeyError"

definition report :: "string \<Rightarrow> string \<Rightarrow> int \<Rightarrow> int \<Rightarrow> int \<Rightarrow> datetime \<Rightarrow> datetime \<Rightarrow> rki_row" where
  "report bl lk cases dead well d dr =
     \<lparr>Bundesland = bl, Landkreis = lk, Altersgruppe = ''A35-A59'', Geschlecht = ''W'',
      AnzahlFall = cases, AnzahlTodesfall = dead, Meldedatum = d, NeuerFall = 0,
      NeuGenesen = 0, AnzahlGenesen = well, Refdatum = dr, date = d, date_ref = dr\<rparr>"

definition example_rki :: rki where
  "example_rki =
     \<lparr>data = Some [report ''Sachsen'' ''SK Dresden'' 4 1 0 11 11,
                   report ''Bayern'' ''SK Muenchen'' 1 0 0 10 8,
                   report ''Bayern'' ''LK Dachau'' 2 0 1 11 9,
                   report ''Bayern'' ''SK Muenchen'' 3 1 2 12 12]\<rparr>"

text \<open>A report of one case on day 1 and its withdrawal, a count of -1, on day 2.\<close>

definition revised_rki :: rki where
  "revised_rki =
     \<lparr>data = Some [report ''Bayern'' ''SK Muenchen'' 1 0 0 1 1,
                   report ''Bayern'' ''SK Muenchen'' (- 1) 0 0 2 2]\<rparr>"

definition example_table :: jhu_table where
  "example_table =
     \<lparr>columns = [(Some ''Germany'', None), (Some ''France'', None),
                 (Some ''France'', Some ''Reunion'')],
      table_rows = [(1, [1, 2, 0]), (2, [3, 4, 1]), (3, [6, 4, 1])]\<rparr>"

definition example_jhu :: jhu where
  "example_jhu =
     \<lparr>confirmed = Some example_table, deaths = Some example_table,
      recovered = Some example_table\<rparr>"

definition whole_slice :: "('l, 'v) slicer" where
  "whole_slice df begin_date end_date = Inr df"

text \<open>An environment in which no file can be fetched.\<close>

definition offline :: jhu_env where
  "offline =
     \<lparr>read_csv = (\<lambda>path. Inl (Exception ''URLError'')),
      this_dir = ''/opt/covid19_inference'',
      strptime = (\<lambda>header. Inl (ValueError ''time data does not match format''))\<rparr>"

text \<open>
  An environment of the RKI download: the index lists \<open>ids\<close>, every per-region query
  is answered by \<open>answer\<close>, and the snapshot holds two reports.
\<close>

definition case_attributes :: "string \<Rightarrow> string \<Rightarrow> int \<Rightarrow> int \<Rightarrow> int \<Rightarrow> attributes" where
  "case_attributes bl lk cases meldedatum refdatum =
     \<lparr>Bundesland = bl, Landkreis = lk, Altersgruppe = ''A15-A34'', Geschlecht = ''M'',
      AnzahlFall = cases, AnzahlTodesfall = 0, Meldedatum = meldedatum, NeuerFall = 0,
      NeuGenesen = 0, AnzahlGenesen = 0, Refdatum = refdatum\<rparr>"

definition snapshot :: "fallback_row list" where
  "snapshot =
     [attributes.extend (case_attributes ''Bayern'' ''SK Muenchen'' 2 1583020800000 1582848000000)
        (fallback_row.fields ''01-03-2020''),
      attributes.extend (case_attributes ''Sachsen'' ''SK Dresden'' 1 1583107200000 1583020800000)
        (fallback_row.fields ''02-03-2020'')]"

definition example_env :: "string list \<Rightarrow> error + attributes list \<Rightarrow> rki_env" where
  "example_env ids answer =
     \<lparr>discovery = Inr ids,
      query = (\<lambda>n i. answer),
      fallback_file = Inr snapshot,
      to_datetime = (\<lambda>cell. if cell = ''01-03-2020'' then Inr 18322
                            else if cell = ''02-03-2020'' then Inr 18323
                            else Inl (ValueError ''time data does not match format'')),
      fromtimestamp = (\<lambda>ms. ms div 86400000)\<rparr>"

section \<open>Auxiliary facts\<close>

lemma and_then_Inr: "and_then r f = Inr y \<longleftrightarrow> (\<exists>x. r = Inr x \<and> f x = Inr y)"
  by (cases r) (simp_all add: and_then_def)

lemma fst_cumsum_from: "map fst (cumsum_from acc xs) = map fst xs"
  by (induction xs arbitrary: acc) auto

lemma cumsum_from_lower:
  "\<forall>v \<in> snd ` set xs. 0 \<le> v \<Longrightarrow> \<forall>w \<in> snd ` set (cumsum_from acc xs). acc \<le> w"
proof (induction xs arbitrary: acc)
  case Nil
  then show ?case by simp
next
  case (Cons x xs)
  obtain l v where x: "x = (l, v)" by (cases x)
  from Cons.prems have v: "0 \<le> v" and rest: "\<forall>v \<in> snd ` set xs. 0 \<le> v"
    by (auto simp: x)
  from Cons.IH [OF rest, of "acc + v"] v show ?case
    by (fastforce simp: x)
qed

lemma sorted_cumsum_from:
  "\<forall>v \<in> snd ` set xs. 0 \<le> v \<Longrightarrow> sorted (map snd (cumsum_from acc xs))"
proof (induction xs arbitrary: acc)
  case Nil
  then show ?case by simp
next
  case (Cons x xs)
  obtain l v where x: "x = (l, v)" by (cases x)
  from Cons.prems have v: "0 \<le> v" and rest: "\<forall>v \<in> snd ` set xs. 0 \<le> v"
    by (auto simp: x)
  from cumsum_from_lower [OF rest, of "acc + v"] Cons.IH [OF rest, of "acc + v"]
  show ?case by (auto simp: x)
qed

lemma fst_groupby_sum: "map fst (groupby_sum key val rows) = sort (remdups (map key rows))"
  by (simp add: groupby_sum_def comp_def)

lemma groupby_sum_nonneg:
  "\<forall>r \<in> set rows. 0 \<le> val r \<Longrightarrow> \<forall>v \<in> snd ` set (groupby_sum key val rows). 0 \<le> v"
  by (auto simp: groupby_sum_def intro!: sum_list_nonneg)

lemma between_sorted: "sorted (map f s) \<Longrightarrow> sorted (map f (between b e s))"
  by (simp add: between_def sorted_filter)

lemma between_distinct: "distinct (map f s) \<Longrightarrow> distinct (map f (between b e s))"
  by (simp add: between_def distinct_map_filter)

lemma or_default_datetime:
  "x = PyNone \<or> isinstance_datetime x \<Longrightarrow> or_default x dflt = Inr y \<Longrightarrow> isinstance_datetime y"
  by (auto simp: or_default_def and_then_def split: sum.splits if_splits)

lemma cumulative_dates:
  "sorted (map fst (cumsum (groupby_sum key val rows)))
     \<and> distinct (map fst (cumsum (groupby_sum key val rows)))"
  by (simp add: cumsum_def fst_cumsum_from fst_groupby_sum)

lemma cumulative_values:
  assumes "\<forall>r \<in> set rows. 0 \<le> val r"
  shows "sorted (map snd (cumsum (groupby_sum key val rows)))"
  using sorted_cumsum_from [OF groupby_sum_nonneg [OF assms]]
  by (simp add: cumsum_def)

lemma slice_dates_datetime:
  "isinstance_datetime b \<Longrightarrow> isinstance_datetime e \<Longrightarrow>
   \<exists>x y. slice_dates sl s b e = Inr (between x y s)"
  by (cases b; cases e) (auto simp: slice_dates_def)

lemma select_level_subset: "select_level level v rows = Inr df \<Longrightarrow> set df \<subseteq> set rows"
  by (auto simp: select_level_def split: option.splits)

text \<open>What a call of \<^verbatim>\<open>RKI.filter\<close> that returns has gone through.\<close>

lemma RKI_filter_Inr:
  assumes res: "RKI_filter sl self begin_date end_date variable date_type level v = Inr s"
    and rows: "data self = Some rows"
    and col: "int_column variable = Some val"
  shows "\<exists>key b e df.
      or_default begin_date (iloc_first (map key (sort_key key rows))) = Inr b
    \<and> or_default end_date (iloc_last (map key (sort_key key rows))) = Inr e
    \<and> \<not> invalid_dates b e
    \<and> select_level level v rows = Inr df
    \<and> slice_dates sl (cumsum (groupby_sum key val df)) b e = Inr s"
proof (cases "date_column date_type")
  case None
  with res rows col show ?thesis
    by (simp add: RKI_filter_def split: if_splits)
next
  case (Some key)
  from res rows col Some have
    "and_then (or_default begin_date (iloc_first (map key (sort_key key rows))))
       (\<lambda>begin_date.
          and_then (or_default end_date (iloc_last (map key (sort_key key rows))))
            (\<lambda>end_date.
               if invalid_dates begin_date end_date then
                 Inl (ValueError ''Invalid begin_date, end_date'')
               else
                 and_then (select_level level v rows)
                   (\<lambda>df. slice_dates sl (cumsum (groupby_sum key val df))
                            begin_date end_date))) = Inr s"
    by (simp add: RKI_filter_def split: if_splits)
  then show ?thesis
    by (auto simp: and_then_Inr split: if_splits)
qed

lemma RKI_filter_between:
  assumes res: "RKI_filter sl self begin_date end_date variable date_type level v = Inr s"
    and rows: "data self = Some rows"
    and col: "int_column variable = Some val"
    and b: "begin_date = PyNone \<or> isinstance_datetime begin_date"
    and e: "end_date = PyNone \<or> isinstance_datetime end_date"
  shows "\<exists>key df x y. set df \<subseteq> set rows \<and> s = between x y (cumsum (groupby_sum key val df))"
proof -
  from RKI_filter_Inr [OF res rows col] obtain key b' e' df where
      b': "or_default begin_date (iloc_first (map key (sort_key key rows))) = Inr b'"
    and e': "or_default end_date (iloc_last (map key (sort_key key rows))) = Inr e'"
    and df: "select_level level v rows = Inr df"
    and s: "slice_dates sl (cumsum (groupby_sum key val df)) b' e' = Inr s"
    by blast
  from slice_dates_datetime [OF or_default_datetime [OF b b'] or_default_datetime [OF e e']] s
  obtain x y where "s = between x y (cumsum (groupby_sum key val df))"
    by (metis sum.inject(2))
  with select_level_subset [OF df] show ?thesis by blast
qed

lemma int_column_valid:
  "variable \<in> set [''AnzahlFall'', ''AnzahlTodesfall'', ''AnzahlGenesen''] \<Longrightarrow>
   \<exists>val. int_column variable = Some val"
  by (auto simp: int_column_def)

lemma RKI_filter_Inr_variable:
  "RKI_filter sl self begin_date end_date variable date_type level v = Inr s \<Longrightarrow>
   variable \<in> set [''AnzahlFall'', ''AnzahlTodesfall'', ''AnzahlGenesen'']"
  by (rule ccontr) (simp add: RKI_filter_def)

lemma RKI_filter_Inr_data:
  "RKI_filter sl self begin_date end_date variable date_type level v = Inr s \<Longrightarrow>
   \<exists>rows. data self = Some rows"
  by (cases "data self") (simp_all add: RKI_filter_def split: if_splits)

section \<open>The cumulative series of \<^verbatim>\<open>RKI.filter\<close>\<close>

text \<open>
  C1, as the code has it. The series \<^verbatim>\<open>RKI.filter\<close> returns for a range given by
  datetimes, or left open, has strictly ascending dates; its values do not decrease
  from one date to the next provided no report of the table counts a negative number
  for the variable. The table stores the counts as they come, and a withdrawn case
  comes as -1: see the counterexample.
\<close>

theorem RKI_filter_monotone:
  assumes res: "RKI_filter sl self begin_date end_date variable date_type level v = Inr s"
    and rows: "data self = Some rows"
    and col: "int_column variable = Some val"
    and nonneg: "\<forall>r \<in> set rows. 0 \<le> val r"
    and b: "begin_date = PyNone \<or> isinstance_datetime begin_date"
    and e: "end_date = PyNone \<or> isinstance_datetime end_date"
  shows "sorted (map fst s) \<and> distinct (map fst s) \<and> sorted (map snd s)"
proof -
  from RKI_filter_between [OF res rows col b e] obtain key df x y where
      df: "set df \<subseteq> set rows" and s: "s = between x y (cumsum (groupby_sum key val df))"
    by blast
  from df nonneg have nn: "\<forall>r \<in> set df. 0 \<le> val r" by auto
  from cumulative_dates [of key val df] cumulative_values [OF nn, of key]
  show ?thesis by (simp add: s between_sorted between_distinct)
qed

theorem RKI_filter_monotone_witness:
  "RKI_filter no_other_slice example_rki PyNone (PyDatetime 11) ''AnzahlFall'' ''date''
       (Some ''Bundesland'') (Some ''Bayern'') = Inr [(10, 1), (11, 3)]
   \<and> sorted (map fst [(10 :: int, 1 :: int), (11, 3)])
   \<and> distinct (map fst [(10 :: int, 1 :: int), (11, 3)])
   \<and> sorted (map snd [(10 :: int, 1 :: int), (11, 3)])"
proof -
  have res: "RKI_filter no_other_slice example_rki PyNone (PyDatetime 11) ''AnzahlFall'' ''date''
       (Some ''Bundesland'') (Some ''Bayern'') = Inr [(10, 1), (11, 3)]"
    by code_simp
  have rows: "data example_rki = Some [report ''Sachsen'' ''SK Dresden'' 4 1 0 11 11,
                   report ''Bayern'' ''SK Muenchen'' 1 0 0 10 8,
                   report ''Bayern'' ''LK Dachau'' 2 0 1 11 9,
                   report ''Bayern'' ''SK Muenchen'' 3 1 2 12 12]"
    by (simp add: example_rki_def)
  have col: "int_column ''AnzahlFall'' = Some AnzahlFall"
    by (simp add: int_column_def)
  have nonneg: "\<forall>r \<in> set [report ''Sachsen'' ''SK Dresden'' 4 1 0 11 11,
                   report ''Bayern'' ''SK Muenchen'' 1 0 0 10 8,
                   report ''Bayern'' ''LK Dachau'' 2 0 1 11 9,
                   report ''Bayern'' ''SK Muenchen'' 3 1 2 12 12]. 0 \<le> AnzahlFall r"
    by (simp add: report_def)
  from RKI_filter_monotone [OF res rows col nonneg] res show ?thesis by simp
qed

text \<open>
  C1 as stated fails: one case reported on day 1 and withdrawn on day 2 gives a
  series that falls from 1 to 0.
\<close>

theorem RKI_filter_decreases_on_negative_count:
  "RKI_filter no_other_slice revised_rki PyNone PyNone ''AnzahlFall'' ''date'' None None
     = Inr [(1, 1), (2, 0)]
   \<and> \<not> sorted (map snd [(1 :: int, 1 :: int), (2, 0)])"
  by code_simp

section \<open>Validation of the arguments of \<^verbatim>\<open>RKI.filter\<close>\<close>

text \<open>
  C2. A variable, a level or a date type outside its list makes \<^verbatim>\<open>RKI.filter\<close> raise
  ValueError, with a message that depends on these three arguments alone: whatever
  the adapter holds, also when \<^verbatim>\<open>self.data\<close> was never assigned, and whatever the
  other arguments are.
\<close>

theorem RKI_filter_rejects_invalid_arguments:
  assumes "variable \<notin> set [''AnzahlFall'', ''AnzahlTodesfall'', ''AnzahlGenesen'']
         \<or> level \<notin> set [Some ''Landkreis'', Some ''Bundesland'', None]
         \<or> date_type \<notin> set [''date'', ''date_ref'']"
  shows "\<exists>msg. \<forall>sl self begin_date end_date v.
           RKI_filter sl self begin_date end_date variable date_type level v
             = Inl (ValueError msg)"
proof (cases "variable \<notin> set [''AnzahlFall'', ''AnzahlTodesfall'', ''AnzahlGenesen'']")
  case True
  then have "\<forall>sl self begin_date end_date v.
      RKI_filter sl self begin_date end_date variable date_type level v
        = Inl (ValueError ''Invalid variable'')"
    unfolding RKI_filter_def by (simp only: if_True) simp
  then show ?thesis ..
next
  case variable: False
  show ?thesis
  proof (cases "level \<notin> set [Some ''Landkreis'', Some ''Bundesland'', None]")
    case True
    with variable have "\<forall>sl self begin_date end_date v.
        RKI_filter sl self begin_date end_date variable date_type level v
          = Inl (ValueError ''Invalid level'')"
      unfolding RKI_filter_def by (simp only: if_True if_False) simp
    then show ?thesis ..
  next
    case level: False
    with variable assms have "date_type \<notin> set [''date'', ''date_ref'']"
      by blast
    with variable level have "\<forall>sl self begin_date end_date v.
        RKI_filter sl self begin_date end_date variable date_type level v
          = Inl (ValueError ''Invalid date_type'')"
      unfolding RKI_filter_def by (simp only: if_True if_False) simp
    then show ?thesis ..
  qed
qed

theorem RKI_filter_rejects_invalid_arguments_witness:
  "RKI_filter no_other_slice \<lparr>data = None\<rparr> PyNone PyNone ''foo'' ''date'' None None
     = Inl (ValueError ''Invalid variable'')"
proof -
  have bad: "''foo'' \<notin> set [''AnzahlFall'', ''AnzahlTodesfall'', ''AnzahlGenesen'']
         \<or> (None :: string option) \<notin> set [Some ''Landkreis'', Some ''Bundesland'', None]
         \<or> ''date'' \<notin> set [''date'', ''date_ref'']"
    by simp
  from RKI_filter_rejects_invalid_arguments [OF bad]
  obtain msg where "RKI_filter no_other_slice \<lparr>data = None\<rparr> PyNone PyNone ''foo'' ''date'' None None
     = Inl (ValueError msg)"
    by blast
  moreover have "RKI_filter no_other_slice \<lparr>data = None\<rparr> PyNone PyNone ''foo'' ''date'' None None
     = Inl (ValueError ''Invalid variable'')"
    by (simp add: RKI_filter_def)
  ultimately show ?thesis by simp
qed
section \<open>The test of the date range\<close>

text \<open>
  C3. The test of the two endpoints raises only when \<^verbatim>\<open>begin_date\<close> is no datetime and
  \<^verbatim>\<open>end_date\<close> is one. Two strings pass it, and so does a datetime followed by a
  string. With two strings each of the three accessors goes on and hands both to the
  slice of the library, on the data computed as usual.
\<close>

theorem date_check_passes_two_strings:
  "\<not> invalid_dates (PyStr a) (PyStr b)
   \<and> \<not> invalid_dates (PyDatetime d) (PyStr b)
   \<and> invalid_dates (PyStr a) (PyDatetime d)
   \<and> JHU_filter_date js df (PyStr a) (PyStr b) = js df (PyStr a) (PyStr b)
   \<and> RKI_filter rs example_rki (PyStr a) (PyStr b) ''AnzahlFall'' ''date'' None None
       = rs [(10, 1), (11, 7), (12, 10)] (PyStr a) (PyStr b)
   \<and> RKI_filter_all_bundesland ps example_rki (PyStr a) (PyStr b) ''AnzahlFall'' ''date''
       = and_then (ps [(10, [1, 0]), (11, [2, 4]), (12, [3, 0])] (PyStr a) (PyStr b))
           (\<lambda>sliced. Inr ([''Bayern'', ''Sachsen''], cumsum_rows_from [0, 0] sliced))"
proof -
  have 1: "\<not> invalid_dates (PyStr a) (PyStr b)
       \<and> \<not> invalid_dates (PyDatetime d) (PyStr b)
       \<and> invalid_dates (PyStr a) (PyDatetime d)"
    by (simp add: invalid_dates_def)
  have 2: "JHU_filter_date js df (PyStr a) (PyStr b) = js df (PyStr a) (PyStr b)"
    by (simp add: JHU_filter_date_def label_or_default_def and_then_def invalid_dates_def
        slice_labels_def)
  have 3: "RKI_filter rs example_rki (PyStr a) (PyStr b) ''AnzahlFall'' ''date'' None None
       = rs [(10, 1), (11, 7), (12, 10)] (PyStr a) (PyStr b)"
    by (simp add: RKI_filter_def example_rki_def report_def date_column_def int_column_def
        or_default_def and_then_def invalid_dates_def select_level_def groupby_sum_def
        cumsum_def slice_dates_def)
  have 4: "RKI_filter_all_bundesland ps example_rki (PyStr a) (PyStr b) ''AnzahlFall'' ''date''
       = and_then (ps [(10, [1, 0]), (11, [2, 4]), (12, [3, 0])] (PyStr a) (PyStr b))
           (\<lambda>sliced. Inr ([''Bayern'', ''Sachsen''], cumsum_rows_from [0, 0] sliced))"
    by (simp add: RKI_filter_all_bundesland_def example_rki_def report_def date_column_def
        int_column_def or_default_def and_then_def invalid_dates_def pivot_sum_def
        slice_dates_def numeral_2_eq_2 split: sum.splits)
  from 1 2 3 4 show ?thesis by blast
qed

section \<open>The daily series\<close>

lemma astype_diff_from:
  "astype_int (diff_from v xs) = Inr (first_difference ((l, v) # xs))"
proof (induction xs arbitrary: v l)
  case Nil
  then show ?case by simp
next
  case (Cons x xs)
  obtain l' v' where x: "x = (l', v')" by (cases x)
  from Cons.IH [of v' l'] show ?case
    by (simp add: x and_then_def)
qed

lemma drop_label_diff_from:
  "l \<notin> fst ` set xs \<Longrightarrow> drop_label l (diff_from v xs) = diff_from v xs"
  by (induction xs arbitrary: v) (auto simp: drop_label_def)

lemma diff_drop_astype_distinct:
  assumes "df \<noteq> []" and "distinct (map fst df)"
  shows "diff_drop_astype df = Inr (first_difference df)"
proof -
  from assms(1) obtain l v xs where df: "df = (l, v) # xs"
    by (cases df) auto
  with assms(2) have "l \<notin> fst ` set xs" by simp
  then have "drop_label l (diff df) = diff_from v xs"
    using drop_label_diff_from [of l xs v] by (simp add: df drop_label_def)
  then show ?thesis
    by (simp add: diff_drop_astype_def iloc_first_def and_then_def df astype_diff_from)
qed

lemma RKI_filter_distinct:
  assumes res: "RKI_filter sl self begin_date end_date variable date_type level v = Inr s"
    and b: "begin_date = PyNone \<or> isinstance_datetime begin_date"
    and e: "end_date = PyNone \<or> isinstance_datetime end_date"
  shows "distinct (map fst s)"
proof -
  from RKI_filter_Inr_data [OF res] obtain rows where rows: "data self = Some rows" ..
  from int_column_valid [OF RKI_filter_Inr_variable [OF res]]
  obtain val where col: "int_column variable = Some val" ..
  from RKI_filter_between [OF res rows col b e] obtain key df x y where
    "s = between x y (cumsum (groupby_sum key val df))" by blast
  with cumulative_dates [of key val df] show ?thesis
    by (simp add: between_distinct)
qed

text \<open>
  C4. Where the cumulative accessor returns a series \<open>s\<close> with at least one row, the
  daily accessor returns the first difference of \<open>s\<close>: one row for every row but the
  first, holding the difference to the row before. For the RKI accessors the range
  is given by datetimes or left open, which makes the dates of \<open>s\<close> distinct; for the
  JHU accessors the labels of \<open>s\<close> are distinct (\<^verbatim>\<open>drop\<close> removes rows by label). A series
  of one row gives the empty series. On a series without rows \<^verbatim>\<open>df.index[0]\<close> raises
  IndexError.
\<close>

theorem daily_is_first_difference:
  fixes rs :: "(datetime, int) slicer" and js :: "(label, int) slicer"
  assumes dates: "(begin_date = PyNone \<or> isinstance_datetime begin_date)
                \<and> (end_date = PyNone \<or> isinstance_datetime end_date)"
  shows
   "(\<forall>s. RKI_get_confirmed rs self bl lk begin_date end_date dt = Inr s \<and> s \<noteq> [] \<longrightarrow>
       RKI_get_new_confirmed rs self bl lk begin_date end_date dt = Inr (first_difference s)
       \<and> (length s = 1 \<longrightarrow> first_difference s = []))
  \<and> (\<forall>s. RKI_get_deaths rs self bl lk begin_date end_date dt = Inr s \<and> s \<noteq> [] \<longrightarrow>
       RKI_get_new_deaths rs self bl lk begin_date end_date dt = Inr (first_difference s)
       \<and> (length s = 1 \<longrightarrow> first_difference s = []))
  \<and> (\<forall>s. RKI_get_recovered rs self bl lk begin_date end_date dt = Inr s \<and> s \<noteq> [] \<longrightarrow>
       RKI_get_new_recovered rs self bl lk begin_date end_date dt = Inr (first_difference s)
       \<and> (length s = 1 \<longrightarrow> first_difference s = []))
  \<and> (\<forall>t. JHU_get_confirmed js jself c st b e = Inr t \<and> t \<noteq> [] \<and> distinct (map fst t) \<longrightarrow>
       JHU_get_new_confirmed js jself c st b e = Inr (first_difference t)
       \<and> (length t = 1 \<longrightarrow> first_difference t = []))
  \<and> (\<forall>t. JHU_get_deaths js jself c st b e = Inr t \<and> t \<noteq> [] \<and> distinct (map fst t) \<longrightarrow>
       JHU_get_new_deaths js jself c st b e = Inr (first_difference t)
       \<and> (length t = 1 \<longrightarrow> first_difference t = []))
  \<and> (\<forall>t. JHU_get_recovered js loc jself c st b e = Inr t \<and> t \<noteq> [] \<and> distinct (map fst t) \<longrightarrow>
       JHU_get_new_recovered js loc jself c st b e = Inr (first_difference t)
       \<and> (length t = 1 \<longrightarrow> first_difference t = []))"
proof -
  have rki: "distinct (map fst s)"
    if "RKI_filter rs self begin_date end_date variable dt level v = Inr s"
    for variable level v s
    using RKI_filter_distinct [OF that] dates by blast
  have one: "first_difference xs = []" if "length xs = 1" for xs :: "('l \<times> int) list"
    using that by (cases xs) auto
  have 1: "RKI_get_new_confirmed rs self bl lk begin_date end_date dt = Inr (first_difference s)"
    if "RKI_get_confirmed rs self bl lk begin_date end_date dt = Inr s" "s \<noteq> []" for s
    using that rki diff_drop_astype_distinct [of s]
    by (auto simp: RKI_get_new_confirmed_def RKI_get_confirmed_def and_then_def
        split: prod.splits)
  have 2: "RKI_get_new_deaths rs self bl lk begin_date end_date dt = Inr (first_difference s)"
    if "RKI_get_deaths rs self bl lk begin_date end_date dt = Inr s" "s \<noteq> []" for s
    using that rki diff_drop_astype_distinct [of s]
    by (auto simp: RKI_get_new_deaths_def RKI_get_deaths_def and_then_def
        split: prod.splits)
  have 3: "RKI_get_new_recovered rs self bl lk begin_date end_date dt = Inr (first_difference s)"
    if "RKI_get_recovered rs self bl lk begin_date end_date dt = Inr s" "s \<noteq> []" for s
    using that rki diff_drop_astype_distinct [of s]
    by (auto simp: RKI_get_new_recovered_def RKI_get_recovered_def and_then_def
        split: prod.splits)
  have 4: "JHU_get_new_confirmed js jself c st b e = Inr (first_difference t)"
    if "JHU_get_confirmed js jself c st b e = Inr t" "t \<noteq> []" "distinct (map fst t)" for t
    using that diff_drop_astype_distinct [of t]
    by (simp add: JHU_get_new_confirmed_def and_then_def)
  have 5: "JHU_get_new_deaths js jself c st b e = Inr (first_difference t)"
    if "JHU_get_deaths js jself c st b e = Inr t" "t \<noteq> []" "distinct (map fst t)" for t
    using that diff_drop_astype_distinct [of t]
    by (simp add: JHU_get_new_deaths_def and_then_def)
  have 6: "JHU_get_new_recovered js loc jself c st b e = Inr (first_difference t)"
    if "JHU_get_recovered js loc jself c st b e = Inr t" "t \<noteq> []" "distinct (map fst t)" for t
    using that diff_drop_astype_distinct [of t]
    by (simp add: JHU_get_new_recovered_def and_then_def)
  show ?thesis
    by (intro conjI allI impI; elim conjE) (simp_all add: 1 2 3 4 5 6 one)
qed

theorem daily_is_first_difference_witness:
  "RKI_get_new_confirmed no_other_slice example_rki None None PyNone PyNone ''date''
     = Inr [(11, 6), (12, 3)]
   \<and> RKI_get_new_confirmed no_other_slice example_rki (Some ''Sachsen'') None PyNone PyNone ''date''
     = Inr []
   \<and> RKI_get_new_deaths no_other_slice example_rki None None PyNone PyNone ''date''
     = Inr [(11, 1), (12, 1)]
   \<and> RKI_get_new_recovered no_other_slice example_rki None None PyNone PyNone ''date''
     = Inr [(11, 1), (12, 2)]
   \<and> JHU_get_new_confirmed whole_slice example_jhu None None PyNone PyNone
     = Inr [(DateL 2, 5), (DateL 3, 3)]
   \<and> JHU_get_new_deaths whole_slice example_jhu (Some ''France'') None PyNone PyNone
     = Inr [(DateL 2, 3), (DateL 3, 0)]
   \<and> JHU_get_new_recovered whole_slice no_loc example_jhu None None PyNone PyNone
     = Inr [(RegionL (Some ''France'', None), 0), (RegionL (Some ''France'', Some ''Reunion''), - 8)]"
proof -
  have dates: "(PyNone = PyNone \<or> isinstance_datetime PyNone)
             \<and> (PyNone = PyNone \<or> isinstance_datetime PyNone)"
    by simp
  note inst = daily_is_first_difference [OF dates,
      where rs = no_other_slice and js = whole_slice and jself = example_jhu
        and self = example_rki and dt = "''date''" and b = PyNone and e = PyNone and loc = no_loc]
  have c1: "RKI_get_confirmed no_other_slice example_rki None None PyNone PyNone ''date''
      = Inr [(10, 1), (11, 7), (12, 10)]"
    by code_simp
  have c1': "RKI_get_confirmed no_other_slice example_rki (Some ''Sachsen'') None PyNone PyNone ''date''
      = Inr [(11, 4)]"
    by code_simp
  have c2: "RKI_get_deaths no_other_slice example_rki None None PyNone PyNone ''date''
      = Inr [(10, 0), (11, 1), (12, 2)]"
    by code_simp
  have c3: "RKI_get_recovered no_other_slice example_rki None None PyNone PyNone ''date''
      = Inr [(10, 0), (11, 1), (12, 3)]"
    by code_simp
  have c4: "JHU_get_confirmed whole_slice example_jhu None None PyNone PyNone
      = Inr [(DateL 1, 3), (DateL 2, 8), (DateL 3, 11)]"
    by code_simp
  have c5: "JHU_get_deaths whole_slice example_jhu (Some ''France'') None PyNone PyNone
      = Inr [(DateL 1, 2), (DateL 2, 5), (DateL 3, 5)]"
    by code_simp
  have c6: "JHU_get_recovered whole_slice no_loc example_jhu None None PyNone PyNone
      = Inr [(RegionL (Some ''Germany'', None), 10), (RegionL (Some ''France'', None), 10),
             (RegionL (Some ''France'', Some ''Reunion''), 2)]"
    by code_simp
  from inst [where bl = None and lk = None and c = None and st = None] c1 c2 c3 c4 c6
  have "RKI_get_new_confirmed no_other_slice example_rki None None PyNone PyNone ''date''
          = Inr [(11, 6), (12, 3)]"
    and "RKI_get_new_deaths no_other_slice example_rki None None PyNone PyNone ''date''
          = Inr [(11, 1), (12, 1)]"
    and "RKI_get_new_recovered no_other_slice example_rki None None PyNone PyNone ''date''
          = Inr [(11, 1), (12, 2)]"
    and "JHU_get_new_confirmed whole_slice example_jhu None None PyNone PyNone
          = Inr [(DateL 2, 5), (DateL 3, 3)]"
    and "JHU_get_new_recovered whole_slice no_loc example_jhu None None PyNone PyNone
          = Inr [(RegionL (Some ''France'', None), 0),
                 (RegionL (Some ''France'', Some ''Reunion''), - 8)]"
    by simp_all
  moreover
  from inst [where bl = "Some ''Sachsen''" and lk = None and c = "Some ''France''" and st = None]
    c1' c5
  have "RKI_get_new_confirmed no_other_slice example_rki (Some ''Sachsen'') None PyNone PyNone ''date''
          = Inr []"
    and "JHU_get_new_deaths whole_slice example_jhu (Some ''France'') None PyNone PyNone
          = Inr [(DateL 2, 3), (DateL 3, 0)]"
    by simp_all
  ultimately show ?thesis by blast
qed
section \<open>The JHU downloads when the source cannot be read\<close>

text \<open>
  C5. When \<^verbatim>\<open>read_csv\<close> fails on the given path, each of the three downloads prints
  the notice of the local copy and then raises TypeError, building the path of a
  fallback file that no caller names; the attributes of the adapter stay as they
  were. No table is returned.
\<close>

theorem download_raises_when_source_fails:
  assumes "read_csv env fp = Inl e"
  shows "JHU_download_confirmed env self fp save = (Inl TypeError, self, [LocalCopyNotice])
       \<and> JHU_download_deaths env self fp save = (Inl TypeError, self, [LocalCopyNotice])
       \<and> JHU_download_recovered env self fp save = (Inl TypeError, self, [LocalCopyNotice])"
  using assms
  by (simp add: JHU_download_confirmed_def JHU_download_deaths_def JHU_download_recovered_def
      download_table_def download_from_source_def)

theorem download_raises_when_source_fails_witness:
  "read_csv offline ''https://raw.githubusercontent.com/time_series_covid19_confirmed_global.csv''
     = Inl (Exception ''URLError'')
   \<and> JHU_download_confirmed offline example_jhu
       ''https://raw.githubusercontent.com/time_series_covid19_confirmed_global.csv'' True
     = (Inl TypeError, example_jhu, [LocalCopyNotice])"
proof -
  have failed: "read_csv offline
      ''https://raw.githubusercontent.com/time_series_covid19_confirmed_global.csv''
        = Inl (Exception ''URLError'')"
    by (simp add: offline_def)
  from download_raises_when_source_fails [OF failed, of example_jhu True] failed
  show ?thesis by simp
qed

section \<open>The index of the series of \<^verbatim>\<open>JHU.get_recovered\<close>\<close>

text \<open>
  C8. On a table of three regions and three dates, \<^verbatim>\<open>get_recovered\<close> without country
  and state builds a column with one row per region, holding the sum of that region over
  all dates, and asks the library to slice it between two region keys;
  \<^verbatim>\<open>get_confirmed\<close> on the same table returns one row per date, holding the sum over all
  regions.
\<close>

theorem get_recovered_sums_over_dates:
  "JHU_get_recovered sl loc example_jhu None None PyNone PyNone
     = sl [(RegionL (Some ''Germany'', None), 10), (RegionL (Some ''France'', None), 10),
           (RegionL (Some ''France'', Some ''Reunion''), 2)]
          (PyTuple (Some ''Germany'') None) (PyTuple (Some ''France'') (Some ''Reunion''))
   \<and> JHU_get_confirmed sl example_jhu None None PyNone PyNone
     = Inr [(DateL 1, 3), (DateL 2, 8), (DateL 3, 11)]"
  by (simp add: JHU_get_recovered_def JHU_get_confirmed_def example_jhu_def example_table_def
      none_string_def sum_axis0_def sum_axis1_def across_regions_def and_then_def
      JHU_filter_date_def label_or_default_def iloc_first_def iloc_last_def invalid_dates_def
      slice_labels_def numeral_3_eq_3)

section \<open>Selectors that match nothing\<close>

lemma groupby_sum_Nil: "cumsum (groupby_sum key val []) = []"
  by (simp add: groupby_sum_def cumsum_def)


lemma or_default_first:
  assumes "xs \<noteq> []" and "x = PyNone \<or> isinstance_datetime x"
  shows "\<exists>d. or_default x (iloc_first xs) = Inr (PyDatetime d)"
  using assms by (cases x; cases xs) (auto simp: or_default_def iloc_first_def and_then_def)

lemma or_default_last:
  assumes "xs \<noteq> []" and "x = PyNone \<or> isinstance_datetime x"
  shows "\<exists>d. or_default x (iloc_last xs) = Inr (PyDatetime d)"
  using assms by (cases x) (auto simp: or_default_def iloc_last_def and_then_def)

lemma RKI_filter_unmatched:
  assumes rows: "data self = Some rows" and ne: "rows \<noteq> []"
    and variable: "variable \<in> set [''AnzahlFall'', ''AnzahlTodesfall'', ''AnzahlGenesen'']"
    and date_type: "date_type \<in> set [''date'', ''date_ref'']"
    and level: "level \<in> set [''Landkreis'', ''Bundesland'']"
    and col: "text_column level = Some col"
    and unmatched: "\<forall>r \<in> set rows. Some (col r) \<noteq> v"
    and b: "begin_date = PyNone \<or> isinstance_datetime begin_date"
    and e: "end_date = PyNone \<or> isinstance_datetime end_date"
  shows "RKI_filter sl self begin_date end_date variable date_type (Some level) v = Inr []"
proof -
  from variable obtain val where val: "int_column variable = Some val"
    using int_column_valid by blast
  from date_type obtain key where key: "date_column date_type = Some key"
    by (auto simp: date_column_def)
  from ne length_sort [of key rows] have ne': "map key (sort_key key rows) \<noteq> []"
    by (cases "sort_key key rows") auto
  from or_default_first [OF ne' b] obtain x where
    x: "or_default begin_date (iloc_first (map key (sort_key key rows))) = Inr (PyDatetime x)" ..
  from or_default_last [OF ne' e] obtain y where
    y: "or_default end_date (iloc_last (map key (sort_key key rows))) = Inr (PyDatetime y)" ..
  from unmatched have sel: "select_level (Some level) v rows = Inr []"
    by (simp add: select_level_def col filter_empty_conv)
  have lv: "Some level \<in> set [Some ''Landkreis'', Some ''Bundesland'', None]"
    using level by auto
  show ?thesis
    unfolding RKI_filter_def
    using variable date_type lv
    by (simp only: if_False not_not rows option.case key val prod.case x y sel)
       (simp add: and_then_def invalid_dates_def groupby_sum_Nil slice_dates_def between_def)
qed

text \<open>
  C9, as the code has it. \<^verbatim>\<open>RKI.filter\<close> on a table with at least one row, with a level
  and a value that no row carries, returns the empty series (for a range given by
  datetimes or left open). \<^verbatim>\<open>JHU.get_confirmed\<close> and \<^verbatim>\<open>JHU.get_deaths\<close> raise KeyError for a
  country, or a pair of country and state, that is no column of the table.
\<close>

theorem unmatched_selector:
  fixes rs :: "(datetime, int) slicer" and js :: "(label, int) slicer"
  shows
   "(data self = Some rows \<and> rows \<noteq> []
       \<and> variable \<in> set [''AnzahlFall'', ''AnzahlTodesfall'', ''AnzahlGenesen'']
       \<and> date_type \<in> set [''date'', ''date_ref'']
       \<and> level \<in> set [''Landkreis'', ''Bundesland'']
       \<and> text_column level = Some col \<and> (\<forall>r \<in> set rows. Some (col r) \<noteq> v)
       \<and> (begin_date = PyNone \<or> isinstance_datetime begin_date)
       \<and> (end_date = PyNone \<or> isinstance_datetime end_date) \<longrightarrow>
     RKI_filter rs self begin_date end_date variable date_type (Some level) v = Inr [])
  \<and> (confirmed jself = Some t \<and> country \<noteq> ''None'' \<and> Some country \<notin> fst ` set (columns t) \<longrightarrow>
       JHU_get_confirmed js jself (Some country) None b e = Inl KeyError)
  \<and> (confirmed jself = Some t \<and> country \<noteq> ''None'' \<and> state \<noteq> ''None''
       \<and> (Some country, Some state) \<notin> set (columns t) \<longrightarrow>
       JHU_get_confirmed js jself (Some country) (Some state) b e = Inl KeyError)
  \<and> (deaths jself = Some t \<and> country \<noteq> ''None'' \<and> Some country \<notin> fst ` set (columns t) \<longrightarrow>
       JHU_get_deaths js jself (Some country) None b e = Inl KeyError)
  \<and> (deaths jself = Some t \<and> country \<noteq> ''None'' \<and> state \<noteq> ''None''
       \<and> (Some country, Some state) \<notin> set (columns t) \<longrightarrow>
       JHU_get_deaths js jself (Some country) (Some state) b e = Inl KeyError)"
proof -
  have jhu: "across_regions t (none_string (Some country)) (none_string None) = Inl KeyError"
    if "country \<noteq> ''None''" "Some country \<notin> fst ` set (columns t)"
    using that by (simp add: across_regions_def none_string_def select_country_def and_then_def)
  have jhu': "across_regions t (none_string (Some country)) (none_string (Some state)) = Inl KeyError"
    if "country \<noteq> ''None''" "state \<noteq> ''None''" "(Some country, Some state) \<notin> set (columns t)"
    using that by (simp add: across_regions_def none_string_def select_column_def)
  show ?thesis
    by (intro conjI impI; elim conjE)
       (simp_all add: RKI_filter_unmatched JHU_get_confirmed_def JHU_get_deaths_def
          jhu jhu' and_then_def)
qed

theorem unmatched_selector_witness:
  "RKI_filter no_other_slice example_rki PyNone PyNone ''AnzahlFall'' ''date''
       (Some ''Bundesland'') (Some ''Hessen'') = Inr []
   \<and> JHU_get_confirmed no_other_slice example_jhu (Some ''Atlantis'') None PyNone PyNone
       = Inl KeyError
   \<and> JHU_get_confirmed no_other_slice example_jhu (Some ''France'') (Some ''Corse'') PyNone PyNone
       = Inl KeyError
   \<and> JHU_get_deaths no_other_slice example_jhu (Some ''Atlantis'') None PyNone PyNone
       = Inl KeyError
   \<and> JHU_get_deaths no_other_slice example_jhu (Some ''France'') (Some ''Corse'') PyNone PyNone
       = Inl KeyError"
proof -
  have t: "confirmed example_jhu = Some example_table" "deaths example_jhu = Some example_table"
    by (simp_all add: example_jhu_def)
  have no_country: "Some ''Atlantis'' \<notin> fst ` set (columns example_table)"
    by (simp add: example_table_def)
  have no_state: "(Some ''France'', Some ''Corse'') \<notin> set (columns example_table)"
    by (simp add: example_table_def)
  from unmatched_selector [where self = example_rki
      and rows = "[report ''Sachsen'' ''SK Dresden'' 4 1 0 11 11,
                   report ''Bayern'' ''SK Muenchen'' 1 0 0 10 8,
                   report ''Bayern'' ''LK Dachau'' 2 0 1 11 9,
                   report ''Bayern'' ''SK Muenchen'' 3 1 2 12 12]"
      and variable = "''AnzahlFall''" and date_type = "''date''" and level = "''Bundesland''"
      and col = Bundesland and v = "Some ''Hessen''" and begin_date = PyNone
      and end_date = PyNone and rs = no_other_slice]
  have rki: "RKI_filter no_other_slice example_rki PyNone PyNone ''AnzahlFall'' ''date''
       (Some ''Bundesland'') (Some ''Hessen'') = Inr []"
    by (simp add: text_column_def report_def) (simp add: example_rki_def report_def)
  from unmatched_selector [where jself = example_jhu and t = example_table
      and country = "''Atlantis''" and js = no_other_slice and b = PyNone and e = PyNone]
    t no_country
  have a: "JHU_get_confirmed no_other_slice example_jhu (Some ''Atlantis'') None PyNone PyNone
       = Inl KeyError"
    and b: "JHU_get_deaths no_other_slice example_jhu (Some ''Atlantis'') None PyNone PyNone
       = Inl KeyError"
    by simp_all
  from unmatched_selector [where jself = example_jhu and t = example_table
      and country = "''France''" and state = "''Corse''"
      and js = no_other_slice and b = PyNone and e = PyNone]
    t no_state
  have c: "JHU_get_confirmed no_other_slice example_jhu (Some ''France'') (Some ''Corse'') PyNone PyNone
       = Inl KeyError"
    and d: "JHU_get_deaths no_other_slice example_jhu (Some ''France'') (Some ''Corse'') PyNone PyNone
       = Inl KeyError"
    by simp_all
  from rki a b c d show ?thesis by simp
qed

text \<open>
  C9 as stated fails for the JHU accessors: a country that is no column of the table
  makes \<^verbatim>\<open>get_confirmed\<close> raise KeyError.
\<close>

theorem get_confirmed_unknown_country_raises:
  "JHU_get_confirmed no_other_slice example_jhu (Some ''Atlantis'') None PyNone PyNone
     = Inl KeyError"
  by code_simp
section \<open>The fallback snapshot\<close>

lemma insort_key_agree:
  "f x = g x \<Longrightarrow> \<forall>y \<in> set ys. f y = g y \<Longrightarrow> insort_key f x ys = insort_key g x ys"
  by (induction ys) auto

lemma sort_key_agree:
  "\<forall>x \<in> set xs. f x = g x \<Longrightarrow> sort_key f xs = sort_key g xs"
  by (induction xs) (auto intro: insort_key_agree)

lemma groupby_sum_agree:
  assumes "\<forall>r \<in> set df. f r = g r"
  shows "groupby_sum f val df = groupby_sum g val df"
proof -
  from assms have keys: "map f df = map g df" by simp
  from assms have groups: "filter (\<lambda>r. f r = d) df = filter (\<lambda>r. g r = d) df" for d
    by (auto intro: filter_cong)
  show ?thesis unfolding groupby_sum_def by (simp only: keys groups)
qed

lemma and_then_agree:
  "(\<And>x. r = Inr x \<Longrightarrow> f x = g x) \<Longrightarrow> and_then r f = and_then r g"
  by (cases r) (simp_all add: and_then_def)

lemma RKI_filter_date_ref_eq_date:
  assumes rows: "data self = Some rows" and same: "\<forall>r \<in> set rows. date_ref r = date r"
  shows "RKI_filter sl self b e variable ''date_ref'' level v
       = RKI_filter sl self b e variable ''date'' level v"
proof -
  have sk: "sort_key date_ref rows = sort_key date rows"
    using same by (rule sort_key_agree)
  have mk: "map date_ref (sort_key date rows) = map date (sort_key date rows)"
    using same by simp
  have inner: "and_then (select_level lv v rows)
                 (\<lambda>df. slice_dates sl (cumsum (groupby_sum date_ref val df)) x y)
             = and_then (select_level lv v rows)
                 (\<lambda>df. slice_dates sl (cumsum (groupby_sum date val df)) x y)" for x y val lv
  proof (rule and_then_agree)
    fix df assume "select_level lv v rows = Inr df"
    from select_level_subset [OF this] same have "\<forall>r \<in> set df. date_ref r = date r" by auto
    then have "groupby_sum date_ref val df = groupby_sum date val df"
      by (rule groupby_sum_agree)
    then show "slice_dates sl (cumsum (groupby_sum date_ref val df)) x y
             = slice_dates sl (cumsum (groupby_sum date val df)) x y"
      by simp
  qed
  show ?thesis
    by (simp add: RKI_filter_def rows date_column_def sk mk inner split: option.splits
        cong: if_cong)
qed

lemma fallback_dates_same:
  "fallback_dates conv raw = Inr df \<Longrightarrow> \<forall>r \<in> set df. date_ref r = date r"
proof (induction raw arbitrary: df)
  case Nil
  then show ?case by simp
next
  case (Cons r rs)
  from Cons.prems obtain d rest where
    rest: "fallback_dates conv rs = Inr rest"
    and df: "df = attributes.extend (attributes.truncate r) (rki_row.fields d d) # rest"
    by (auto simp: and_then_Inr)
  from Cons.IH [OF rest] show ?case
    by (simp add: df attributes.extend_def rki_row.fields_def)
qed

text \<open>
  C10. A download whose index lists fewer than 412 identifiers and that returns a
  table has stored that table; each of its rows carries the same datetime in \<^verbatim>\<open>date\<close>
  and \<^verbatim>\<open>date_ref\<close>; and \<^verbatim>\<open>RKI.filter\<close> on the adapter it leaves answers alike for the two
  date types, whatever the other arguments are.
\<close>

theorem fallback_date_ref_is_date:
  assumes ids: "discovery env = Inr unique_ids"
    and few: "length unique_ids < landkreise_max"
    and df: "returned (RKI_download_all_available_data env self try_max) = Inr df"
  shows "data (adapter (RKI_download_all_available_data env self try_max)) = Some df
       \<and> (\<forall>r \<in> set df. date_ref r = date r)
       \<and> (\<forall>sl b e variable level v.
            RKI_filter sl (adapter (RKI_download_all_available_data env self try_max))
              b e variable ''date_ref'' level v
          = RKI_filter sl (adapter (RKI_download_all_available_data env self try_max))
              b e variable ''date'' level v)"
proof -
  from ids few df have
    conv: "and_then (fallback_file env) (fallback_dates (to_datetime env)) = Inr df"
    and stored: "data (adapter (RKI_download_all_available_data env self try_max)) = Some df"
    by (auto simp: RKI_download_all_available_data_def Let_def split: sum.splits)
  from conv obtain raw where "fallback_dates (to_datetime env) raw = Inr df"
    by (auto simp: and_then_Inr)
  then have same: "\<forall>r \<in> set df. date_ref r = date r"
    by (rule fallback_dates_same)
  from RKI_filter_date_ref_eq_date [OF stored same] stored same
  show ?thesis by blast
qed

theorem fallback_date_ref_is_date_witness:
  "returned (RKI_download_all_available_data (example_env [''01001'', ''01002''] (Inr [])) \<lparr>data = None\<rparr> 10)
     = Inr [attributes.extend (case_attributes ''Bayern'' ''SK Muenchen'' 2 1583020800000 1582848000000)
              (rki_row.fields 18322 18322),
            attributes.extend (case_attributes ''Sachsen'' ''SK Dresden'' 1 1583107200000 1583020800000)
              (rki_row.fields 18323 18323)]
   \<and> RKI_filter no_other_slice
        (adapter (RKI_download_all_available_data (example_env [''01001'', ''01002''] (Inr [])) \<lparr>data = None\<rparr> 10))
        PyNone PyNone ''AnzahlFall'' ''date_ref'' None None
     = RKI_filter no_other_slice
        (adapter (RKI_download_all_available_data (example_env [''01001'', ''01002''] (Inr [])) \<lparr>data = None\<rparr> 10))
        PyNone PyNone ''AnzahlFall'' ''date'' None None"
proof -
  have ids: "discovery (example_env [''01001'', ''01002''] (Inr [])) = Inr [''01001'', ''01002'']"
    by (simp add: example_env_def)
  have few: "length [''01001'', ''01002''] < landkreise_max"
    by (simp add: landkreise_max_def)
  have df: "returned (RKI_download_all_available_data (example_env [''01001'', ''01002''] (Inr [])) \<lparr>data = None\<rparr> 10)
     = Inr [attributes.extend (case_attributes ''Bayern'' ''SK Muenchen'' 2 1583020800000 1582848000000)
              (rki_row.fields 18322 18322),
            attributes.extend (case_attributes ''Sachsen'' ''SK Dresden'' 1 1583107200000 1583020800000)
              (rki_row.fields 18323 18323)]"
    by (simp add: RKI_download_all_available_data_def example_env_def landkreise_max_def
        snapshot_def and_then_def attributes.extend_def attributes.truncate_def
        fallback_row.fields_def rki_row.fields_def case_attributes_def)
  from fallback_date_ref_is_date [OF ids few df] df show ?thesis by blast
qed

text \<open>A table whose two date columns differ, as a live download can store it, is told apart.\<close>

lemma date_ref_differs_from_date:
  "RKI_filter no_other_slice example_rki PyNone PyNone ''AnzahlFall'' ''date_ref'' None None
     \<noteq> RKI_filter no_other_slice example_rki PyNone PyNone ''AnzahlFall'' ''date'' None None"
  by code_simp
section \<open>The per-region retrieval\<close>

declare try_query.simps [simp del]

lemma count_list_replicate: "count_list (replicate k i) j = (if i = j then k else 0)"
  by (induction k) auto

text \<open>One Landkreis is asked at most \<open>try_max\<close> times, and only itself.\<close>

lemma try_query_log:
  "\<exists>k. k \<le> nat (try_max - count_try)
     \<and> snd (snd (try_query env try_max i count_try d log)) = log @ replicate k i"
proof (induction env try_max i count_try d log rule: try_query.induct)
  case (1 env try_max i count_try d log)
  show ?case
  proof (cases "count_try < try_max")
    case False
    then have "try_query env try_max i count_try d log = (d, count_try, log)"
      by (subst try_query.simps) simp
    then show ?thesis by simp
  next
    case less: True
    show ?thesis
    proof (cases "attempt_fails (query env (length log) i)")
      case True
      then have step: "try_query env try_max i count_try d log
          = try_query env try_max i (count_try + 1) d (log @ [i])"
        using less by (subst try_query.simps) (auto simp: attempt_fails_def split: sum.splits)
      from True less "1.IH" obtain k where
        k: "k \<le> nat (try_max - (count_try + 1))"
        and log: "snd (snd (try_query env try_max i (count_try + 1) d (log @ [i])))
                    = (log @ [i]) @ replicate k i"
        by (cases "query env (length log) i") (auto simp: attempt_fails_def)
      from k less have "Suc k \<le> nat (try_max - count_try)" by linarith
      moreover from log have "snd (snd (try_query env try_max i count_try d log))
          = log @ replicate (Suc k) i"
        by (simp add: step)
      ultimately show ?thesis by blast
    next
      case False
      then obtain features where "query env (length log) i = Inr features"
        and "\<not> length features > 5000"
        by (cases "query env (length log) i") (auto simp: attempt_fails_def)
      with less have "try_query env try_max i count_try d log
          = (Some features, count_try, log @ [i])"
        by (subst try_query.simps) simp
      moreover from less have "Suc 0 \<le> nat (try_max - count_try)" by linarith
      ultimately show ?thesis
        by (intro exI [of _ "Suc 0"]) simp
    qed
  qed
qed

text \<open>When every attempt fails the loop ends with \<open>count_try = try_max\<close>.\<close>

lemma try_query_exhausted:
  "count_try \<le> try_max \<Longrightarrow>
   \<forall>j < nat (try_max - count_try). attempt_fails (query env (length log + j) i) \<Longrightarrow>
   try_query env try_max i count_try d log
     = (d, try_max, log @ replicate (nat (try_max - count_try)) i)"
proof (induction env try_max i count_try d log rule: try_query.induct)
  case (1 env try_max i count_try d log)
  show ?case
  proof (cases "count_try < try_max")
    case False
    with "1.prems"(1) have "count_try = try_max" by simp
    then show ?thesis by (subst try_query.simps) simp
  next
    case less: True
    then have pos: "0 < nat (try_max - count_try)" by simp
    with "1.prems"(2) have fails: "attempt_fails (query env (length log) i)"
      by (metis add.right_neutral)
    then have step: "try_query env try_max i count_try d log
        = try_query env try_max i (count_try + 1) d (log @ [i])"
      using less by (subst try_query.simps) (auto simp: attempt_fails_def split: sum.splits)
    have rest: "\<forall>j < nat (try_max - (count_try + 1)).
        attempt_fails (query env (length (log @ [i]) + j) i)"
    proof (intro allI impI)
      fix j assume "j < nat (try_max - (count_try + 1))"
      then have "Suc j < nat (try_max - count_try)" by linarith
      with "1.prems"(2) show "attempt_fails (query env (length (log @ [i]) + j) i)"
        by (metis add_Suc_right add_Suc length_append_singleton)
    qed
    from less have le: "count_try + 1 \<le> try_max" by simp
    have "try_query env try_max i (count_try + 1) d (log @ [i])
        = (d, try_max, (log @ [i]) @ replicate (nat (try_max - (count_try + 1))) i)"
    proof (cases "query env (length log) i")
      case (Inl e)
      from "1.IH"(1) [OF less Inl le rest] show ?thesis .
    next
      case (Inr features)
      with fails have "5000 < length features" by (simp add: attempt_fails_def)
      from "1.IH"(2) [OF less Inr this le rest] show ?thesis .
    qed
    moreover from less have "nat (try_max - count_try) = Suc (nat (try_max - (count_try + 1)))"
      by linarith
    ultimately show ?thesis by (simp add: step replicate_app_Cons_same)
  qed
qed

text \<open>When the loop ends below \<open>try_max\<close> an attempt has succeeded.\<close>

lemma try_query_break:
  "try_query env try_max i count_try d log = (d', c', log') \<Longrightarrow> count_try \<le> try_max \<Longrightarrow>
   c' \<noteq> try_max \<Longrightarrow> (\<exists>features. d' = Some features) \<and> i \<in> set log'"
proof (induction env try_max i count_try d log rule: try_query.induct)
  case (1 env try_max i count_try d log)
  show ?case
  proof (cases "count_try < try_max")
    case False
    with "1.prems" show ?thesis by (subst (asm) try_query.simps) auto
  next
    case less: True
    then have le: "count_try + 1 \<le> try_max" by simp
    show ?thesis
    proof (cases "query env (length log) i")
      case (Inl e)
      with less "1.prems"(1) have
        "try_query env try_max i (count_try + 1) d (log @ [i]) = (d', c', log')"
        by (subst (asm) try_query.simps) simp
      from "1.IH"(1) [OF less Inl this le "1.prems"(3)] show ?thesis .
    next
      case (Inr features)
      show ?thesis
      proof (cases "5000 < length features")
        case True
        with Inr less "1.prems"(1) have
          "try_query env try_max i (count_try + 1) d (log @ [i]) = (d', c', log')"
          by (subst (asm) try_query.simps) simp
        from "1.IH"(2) [OF less Inr True this le "1.prems"(3)] show ?thesis .
      next
        case False
        with Inr less "1.prems"(1) show ?thesis
          by (subst (asm) try_query.simps) auto
      qed
    qed
  qed
qed

lemma try_query_none:
  "try_max \<le> 0 \<Longrightarrow> try_query env try_max i 0 d log = (d, 0, log)"
  by (subst try_query.simps) simp

lemma fetch_landkreise_count:
  "count_list (snd (fetch_landkreise env try_max ids df d log)) j
     \<le> count_list log j + nat try_max * count_list ids j"
proof (induction ids arbitrary: df d log)
  case Nil
  then show ?case by simp
next
  case (Cons i ids)
  obtain d' c log' where tq: "try_query env try_max i 0 d log = (d', c, log')"
    by (cases "try_query env try_max i 0 d log")
  from try_query_log [of try_max 0 env i d log] tq obtain k where
    k: "k \<le> nat try_max" and log': "log' = log @ replicate k i"
    by auto
  have here: "count_list log' j \<le> count_list log j + nat try_max * count_list [i] j"
    using k by (simp add: log' count_list_replicate)
  show ?case
  proof (cases "c \<noteq> try_max \<and> d' \<noteq> None")
    case True
    then obtain t where "d' = Some t" by auto
    with True tq have "fetch_landkreise env try_max (i # ids) df d log
        = fetch_landkreise env try_max ids (df @ t) d' log'"
      by simp
    with Cons.IH [of "df @ t" d' log'] here show ?thesis
      by (auto simp: algebra_simps)
  next
    case False
    with tq have "snd (fetch_landkreise env try_max (i # ids) df d log) = log'"
      by (auto split: option.splits)
    with here show ?thesis by (auto simp: algebra_simps intro: le_trans)
  qed
qed

lemma fetch_landkreise_all_queried:
  "fetch_landkreise env try_max ids df d log = (Inr table, log') \<Longrightarrow> 0 < try_max \<or> d = None \<Longrightarrow>
   set ids \<union> set log \<subseteq> set log'"
proof (induction ids arbitrary: df d log)
  case Nil
  then show ?case by simp
next
  case (Cons i ids)
  obtain d1 c log1 where tq: "try_query env try_max i 0 d log = (d1, c, log1)"
    by (cases "try_query env try_max i 0 d log")
  show ?case
  proof (cases "0 < try_max")
    case False
    with Cons.prems(2) have "d = None" by simp
    with False tq try_query_none [of try_max env i d log] have "d1 = None" "c = 0"
      by simp_all
    with tq Cons.prems(1) show ?thesis
      by (simp split: if_splits)
  next
    case True
    from Cons.prems(1) tq have c: "c \<noteq> try_max"
      by (auto split: if_splits)
    from try_query_break [OF tq _ c] True obtain t where d1: "d1 = Some t" and i: "i \<in> set log1"
      by auto
    from try_query_log [of try_max 0 env i d log] tq have sub: "set log \<subseteq> set log1"
      by auto
    from Cons.prems(1) tq c d1 have
      "fetch_landkreise env try_max ids (df @ t) d1 log1 = (Inr table, log')"
      by simp
    from Cons.IH [OF this] True have "set ids \<union> set log1 \<subseteq> set log'" by simp
    with i sub show ?thesis by auto
  qed
qed

lemma fetch_landkreise_prefix:
  "fetch_landkreise env try_max pre df d log = (Inr df', log') \<Longrightarrow>
   \<exists>d'. \<forall>rest. fetch_landkreise env try_max (pre @ rest) df d log
             = fetch_landkreise env try_max rest df' d' log'"
proof (induction pre arbitrary: df d log)
  case Nil
  then show ?case by auto
next
  case (Cons i pre)
  obtain d1 c log1 where tq: "try_query env try_max i 0 d log = (d1, c, log1)"
    by (cases "try_query env try_max i 0 d log")
  from Cons.prems tq have c: "c \<noteq> try_max"
    by (auto split: if_splits)
  with Cons.prems tq obtain t where d1: "d1 = Some t"
    by (cases d1) auto
  from Cons.prems tq c d1 have
    "fetch_landkreise env try_max pre (df @ t) d1 log1 = (Inr df', log')"
    by simp
  from Cons.IH [OF this] obtain d' where
    "\<forall>rest. fetch_landkreise env try_max (pre @ rest) (df @ t) d1 log1
             = fetch_landkreise env try_max rest df' d' log'" ..
  with tq c d1 show ?case by auto
qed

lemma fetch_landkreise_exhausted:
  assumes "0 \<le> try_max"
    and "\<forall>j < nat try_max. attempt_fails (query env (length log + j) i)"
  shows "fetch_landkreise env try_max (i # post) df d log
       = (Inl (ValueError ''Maximum limit of tries exceeded.''), log @ replicate (nat try_max) i)"
  using try_query_exhausted [of 0 try_max env log i d] assms by simp
lemma download_error_keeps_adapter:
  "returned (RKI_download_all_available_data env self try_max) = Inl e \<Longrightarrow>
   adapter (RKI_download_all_available_data env self try_max) = self"
  by (auto simp: RKI_download_all_available_data_def Let_def split: sum.splits prod.splits)

lemma download_live:
  assumes "discovery env = Inr unique_ids" and "landkreise_max \<le> length unique_ids"
    and "fetch_landkreise env try_max unique_ids [] None [] = (r, log)"
  shows "RKI_download_all_available_data env self try_max =
     (case r of
        Inl e \<Rightarrow> \<lparr>returned = Inl e, adapter = self,
                  printed = [Downloading (length unique_ids)], queried = log\<rparr>
      | Inr df \<Rightarrow>
          \<lparr>returned = Inr (map (with_dates (fromtimestamp env)) df),
           adapter = self\<lparr>data := Some (map (with_dates (fromtimestamp env)) df)\<rparr>,
           printed = [Downloading (length unique_ids), Finished], queried = log\<rparr>)"
  using assms
  by (simp add: RKI_download_all_available_data_def Let_def split: sum.splits)

text \<open>
  C6. On the per-region path (the index lists at least 412 identifiers):
  \<^item> a Landkreis is queried at most \<open>try_max\<close> times for each time the index lists it;
  \<^item> if the Landkreise before \<open>i\<close> have been retrieved and each of the \<open>try_max\<close>
    attempts for \<open>i\<close> fails, by an exception or by more than 5000 features, the call
    raises the ValueError of the exhausted tries after exactly these attempts, returns
    no table and leaves the adapter as it was (\<open>try_max\<close> is a number of tries, not
    negative);
  \<^item> whenever the call raises, the adapter is left as it was.
\<close>

theorem per_region_retry:
  assumes ids: "discovery env = Inr unique_ids"
    and many: "412 \<le> length unique_ids"
  shows
   "(\<forall>i. count_list (queried (RKI_download_all_available_data env self try_max)) i
           \<le> nat try_max * count_list unique_ids i)
  \<and> (\<forall>pre i post df log.
        0 \<le> try_max \<and> unique_ids = pre @ i # post
        \<and> fetch_landkreise env try_max pre [] None [] = (Inr df, log)
        \<and> (\<forall>j < nat try_max. attempt_fails (query env (length log + j) i)) \<longrightarrow>
        RKI_download_all_available_data env self try_max
          = \<lparr>returned = Inl (ValueError ''Maximum limit of tries exceeded.''), adapter = self,
             printed = [Downloading (length unique_ids)],
             queried = log @ replicate (nat try_max) i\<rparr>)
  \<and> (\<forall>e. returned (RKI_download_all_available_data env self try_max) = Inl e \<longrightarrow>
        adapter (RKI_download_all_available_data env self try_max) = self)"
proof (intro conjI allI impI)
  from many have many': "landkreise_max \<le> length unique_ids"
    by (simp add: landkreise_max_def)
  obtain r log where f: "fetch_landkreise env try_max unique_ids [] None [] = (r, log)"
    by (cases "fetch_landkreise env try_max unique_ids [] None []")
  {
    fix i
    from download_live [OF ids many' f, of self]
    have "queried (RKI_download_all_available_data env self try_max) = log"
      by (cases r) simp_all
    with fetch_landkreise_count [of env try_max unique_ids "[]" None "[]" i] f
    show "count_list (queried (RKI_download_all_available_data env self try_max)) i
            \<le> nat try_max * count_list unique_ids i"
      by simp
  }
  {
    fix pre i post df plog
    assume h: "0 \<le> try_max \<and> unique_ids = pre @ i # post
        \<and> fetch_landkreise env try_max pre [] None [] = (Inr df, plog)
        \<and> (\<forall>j < nat try_max. attempt_fails (query env (length plog + j) i))"
    from fetch_landkreise_prefix [of env try_max pre "[]" None "[]" df plog] h obtain d' where
      "fetch_landkreise env try_max (pre @ i # post) [] None []
         = fetch_landkreise env try_max (i # post) df d' plog"
      by blast
    with fetch_landkreise_exhausted [of try_max env plog i post df d'] h f
    have "r = Inl (ValueError ''Maximum limit of tries exceeded.'')"
      and "log = plog @ replicate (nat try_max) i"
      by simp_all
    with download_live [OF ids many' f, of self]
    show "RKI_download_all_available_data env self try_max
          = \<lparr>returned = Inl (ValueError ''Maximum limit of tries exceeded.''), adapter = self,
             printed = [Downloading (length unique_ids)],
             queried = plog @ replicate (nat try_max) i\<rparr>"
      by simp
  }
  {
    fix e
    assume "returned (RKI_download_all_available_data env self try_max) = Inl e"
    then show "adapter (RKI_download_all_available_data env self try_max) = self"
      by (rule download_error_keeps_adapter)
  }
qed

theorem per_region_retry_witness:
  "RKI_download_all_available_data
      (example_env (replicate 412 ''09162'') (Inr (replicate 5001 (case_attributes ''Bayern'' ''SK Muenchen'' 1 0 0))))
      example_rki 2
     = \<lparr>returned = Inl (ValueError ''Maximum limit of tries exceeded.''), adapter = example_rki,
        printed = [Downloading 412], queried = [''09162'', ''09162'']\<rparr>
   \<and> count_list (queried (RKI_download_all_available_data
        (example_env (replicate 412 ''09162'') (Inr (replicate 5001 (case_attributes ''Bayern'' ''SK Muenchen'' 1 0 0))))
        example_rki 2)) ''09162'' \<le> 2 * 412"
proof -
  let ?answer = "Inr (replicate 5001 (case_attributes ''Bayern'' ''SK Muenchen'' 1 0 0))"
  let ?env = "example_env (replicate 412 ''09162'') ?answer"
  have ids: "discovery ?env = Inr (replicate 412 ''09162'')"
    by (simp add: example_env_def)
  have many: "412 \<le> length (replicate 412 ''09162'')"
    by simp
  note inst = per_region_retry [OF ids many, of example_rki 2]
  have split: "replicate 412 ''09162'' = [] @ ''09162'' # replicate 411 ''09162''"
    using replicate_Suc [of 411 "''09162''"] by simp
  have before: "fetch_landkreise ?env 2 [] [] None [] = (Inr [], [])"
    by simp
  have fails: "\<forall>j < nat 2. attempt_fails (query ?env (length ([] :: string list) + j) ''09162'')"
    by (simp add: example_env_def attempt_fails_def)
  have tries: "(0 :: int) \<le> 2"
    by simp
  note abort = inst [THEN conjunct2, THEN conjunct1, rule_format,
      where pre = "[]" and i = "''09162''" and post = "replicate 411 ''09162''"
        and df = "[]" and log = "[]"]
  from abort [OF conjI [OF tries conjI [OF split conjI [OF before fails]]]]
  have run: "RKI_download_all_available_data ?env example_rki 2
     = \<lparr>returned = Inl (ValueError ''Maximum limit of tries exceeded.''), adapter = example_rki,
        printed = [Downloading (length (replicate 412 ''09162''))],
        queried = [] @ replicate (nat 2) ''09162''\<rparr>" .
  from inst [THEN conjunct1, rule_format, of "''09162''"]
  have "count_list (queried (RKI_download_all_available_data ?env example_rki 2)) ''09162''
      \<le> nat 2 * count_list (replicate 412 ''09162'') ''09162''" .
  then have "count_list (queried (RKI_download_all_available_data ?env example_rki 2)) ''09162''
      \<le> 2 * 412"
    by (simp add: count_list_replicate)
  with run show ?thesis
    by (simp add: numeral_2_eq_2)
qed

section \<open>The threshold of the index\<close>

text \<open>
  C7. If the index lists fewer than 412 identifiers and the snapshot can be read and
  its dates converted, the call asks no per-region query, prints the warning, and stores
  and returns the converted snapshot. If the index lists at least 412, the call prints
  no warning and announces the download; where it returns a table, that table is
  stored and every listed identifier has been queried.
\<close>

theorem discovery_threshold:
  "(discovery env = Inr unique_ids \<and> length unique_ids < 412
      \<and> and_then (fallback_file env) (fallback_dates (to_datetime env)) = Inr df \<longrightarrow>
      RKI_download_all_available_data env self try_max
        = \<lparr>returned = Inr df, adapter = self\<lparr>data := Some df\<rparr>,
           printed = [FallbackWarning (length unique_ids) 412, Finished], queried = []\<rparr>)
  \<and> (discovery env = Inr unique_ids \<and> 412 \<le> length unique_ids \<longrightarrow>
      (\<forall>n m. FallbackWarning n m \<notin> set (printed (RKI_download_all_available_data env self try_max)))
      \<and> Downloading (length unique_ids)
           \<in> set (printed (RKI_download_all_available_data env self try_max))
      \<and> (\<forall>table. returned (RKI_download_all_available_data env self try_max) = Inr table \<longrightarrow>
            data (adapter (RKI_download_all_available_data env self try_max)) = Some table
            \<and> set unique_ids \<subseteq> set (queried (RKI_download_all_available_data env self try_max))))"
proof (intro conjI impI)
  assume "discovery env = Inr unique_ids \<and> length unique_ids < 412
      \<and> and_then (fallback_file env) (fallback_dates (to_datetime env)) = Inr df"
  then show "RKI_download_all_available_data env self try_max
        = \<lparr>returned = Inr df, adapter = self\<lparr>data := Some df\<rparr>,
           printed = [FallbackWarning (length unique_ids) 412, Finished], queried = []\<rparr>"
    by (simp add: RKI_download_all_available_data_def Let_def landkreise_max_def)
next
  assume h: "discovery env = Inr unique_ids \<and> 412 \<le> length unique_ids"
  then have ids: "discovery env = Inr unique_ids"
    and many: "landkreise_max \<le> length unique_ids"
    by (simp_all add: landkreise_max_def)
  obtain r log where f: "fetch_landkreise env try_max unique_ids [] None [] = (r, log)"
    by (cases "fetch_landkreise env try_max unique_ids [] None []")
  note live = download_live [OF ids many f, of self]
  from live show "\<forall>n m. FallbackWarning n m
      \<notin> set (printed (RKI_download_all_available_data env self try_max))"
    by (cases r) simp_all
  from live show "Downloading (length unique_ids)
      \<in> set (printed (RKI_download_all_available_data env self try_max))"
    by (cases r) simp_all
  show "\<forall>table. returned (RKI_download_all_available_data env self try_max) = Inr table \<longrightarrow>
            data (adapter (RKI_download_all_available_data env self try_max)) = Some table
            \<and> set unique_ids \<subseteq> set (queried (RKI_download_all_available_data env self try_max))"
  proof (intro allI impI)
    fix table
    assume ret: "returned (RKI_download_all_available_data env self try_max) = Inr table"
    with live obtain t where r: "r = Inr t"
      by (cases r) simp_all
    from fetch_landkreise_all_queried [of env try_max unique_ids "[]" None "[]" t log] f r
    have "set unique_ids \<subseteq> set log" by simp
    with live ret r
    show "data (adapter (RKI_download_all_available_data env self try_max)) = Some table
        \<and> set unique_ids \<subseteq> set (queried (RKI_download_all_available_data env self try_max))"
      by simp
  qed
qed

lemma fetch_landkreise_answered:
  assumes "0 < try_max" and "length t \<le> 5000"
  shows "fetch_landkreise (example_env ids0 (Inr t)) try_max ids df d log
       = (Inr (df @ concat (replicate (length ids) t)), log @ ids)"
proof (induction ids arbitrary: df d log)
  case Nil
  then show ?case by simp
next
  case (Cons i ids)
  from assms have "try_query (example_env ids0 (Inr t)) try_max i 0 d log = (Some t, 0, log @ [i])"
    by (subst try_query.simps) (simp add: example_env_def)
  with assms(1) Cons.IH [of "df @ t" "Some t" "log @ [i]"] show ?case
    by simp
qed

theorem discovery_threshold_witness:
  "RKI_download_all_available_data (example_env [''01001'', ''01002''] (Inr [])) \<lparr>data = None\<rparr> 10
     = \<lparr>returned = Inr [attributes.extend (case_attributes ''Bayern'' ''SK Muenchen'' 2 1583020800000 1582848000000)
                         (rki_row.fields 18322 18322),
                       attributes.extend (case_attributes ''Sachsen'' ''SK Dresden'' 1 1583107200000 1583020800000)
                         (rki_row.fields 18323 18323)],
        adapter = \<lparr>data = Some [attributes.extend (case_attributes ''Bayern'' ''SK Muenchen'' 2 1583020800000 1582848000000)
                         (rki_row.fields 18322 18322),
                       attributes.extend (case_attributes ''Sachsen'' ''SK Dresden'' 1 1583107200000 1583020800000)
                         (rki_row.fields 18323 18323)]\<rparr>,
        printed = [FallbackWarning 2 412, Finished], queried = []\<rparr>
   \<and> Downloading 412 \<in> set (printed (RKI_download_all_available_data
         (example_env (replicate 412 ''09162'') (Inr [case_attributes ''Bayern'' ''SK Muenchen'' 1 1583020800000 1582848000000]))
         \<lparr>data = None\<rparr> 10))
   \<and> set (replicate 412 ''09162'') \<subseteq> set (queried (RKI_download_all_available_data
         (example_env (replicate 412 ''09162'') (Inr [case_attributes ''Bayern'' ''SK Muenchen'' 1 1583020800000 1582848000000]))
         \<lparr>data = None\<rparr> 10))"
proof -
  let ?few = "example_env [''01001'', ''01002''] (Inr [])"
  let ?t = "[case_attributes ''Bayern'' ''SK Muenchen'' 1 1583020800000 1582848000000]"
  let ?many = "example_env (replicate 412 ''09162'') (Inr ?t)"
  let ?df = "[attributes.extend (case_attributes ''Bayern'' ''SK Muenchen'' 2 1583020800000 1582848000000)
                (rki_row.fields 18322 18322),
              attributes.extend (case_attributes ''Sachsen'' ''SK Dresden'' 1 1583107200000 1583020800000)
                (rki_row.fields 18323 18323)]"
  have few: "discovery ?few = Inr [''01001'', ''01002'']
      \<and> length [''01001'', ''01002''] < 412
      \<and> and_then (fallback_file ?few) (fallback_dates (to_datetime ?few)) = Inr ?df"
    by (simp add: example_env_def snapshot_def and_then_def attributes.extend_def
        attributes.truncate_def fallback_row.fields_def rki_row.fields_def case_attributes_def)
  from discovery_threshold [of ?few "[''01001'', ''01002'']" ?df "\<lparr>data = None\<rparr>" 10] few
  have a: "RKI_download_all_available_data ?few \<lparr>data = None\<rparr> 10
     = \<lparr>returned = Inr ?df, adapter = \<lparr>data = Some ?df\<rparr>,
        printed = [FallbackWarning 2 412, Finished], queried = []\<rparr>"
    by simp
  have many: "discovery ?many = Inr (replicate 412 ''09162'')
      \<and> 412 \<le> length (replicate 412 ''09162'')"
    by (simp add: example_env_def)
  have f: "fetch_landkreise ?many 10 (replicate 412 ''09162'') [] None []
      = (Inr ([] @ concat (replicate (length (replicate 412 ''09162'')) ?t)),
         [] @ replicate 412 ''09162'')"
    by (rule fetch_landkreise_answered) simp_all
  have ret: "returned (RKI_download_all_available_data ?many \<lparr>data = None\<rparr> 10)
      = Inr (map (with_dates (fromtimestamp ?many)) (concat (replicate 412 ?t)))"
    using download_live [of ?many "replicate 412 ''09162''" 10 _ _ "\<lparr>data = None\<rparr>", OF _ _ f] many
    by (simp add: landkreise_max_def)
  from discovery_threshold [of ?many "replicate 412 ''09162''" _ "\<lparr>data = None\<rparr>" 10] many ret
  have b: "Downloading 412 \<in> set (printed (RKI_download_all_available_data ?many \<lparr>data = None\<rparr> 10))"
    and c: "set (replicate 412 ''09162'')
        \<subseteq> set (queried (RKI_download_all_available_data ?many \<lparr>data = None\<rparr> 10))"
    by simp_all
  from a b c show ?thesis by blast
qed

end
